theory Spec2Isabelle
  imports Main "HOL-Library.Sublist" "HOL-Library.Multiset"
begin

section \<open>JavaScript values used by scan-probe.js\<close>

subsection \<open>Strings\<close>

text \<open>
  A JavaScript string is a sequence of UTF-16 code units; \<open>slice\<close>, \<open>replaceAll\<close>
  and \<open>length\<close> count code units. A string is therefore a list of code units, each a
  natural number. \<open>js\<close> embeds an ASCII literal. The route types \<open>V2\<rightarrow>V3\<close> and
  \<open>V3\<rightarrow>V2\<close> contain U+2192, one code unit (8594).
\<close>

type_synonym jsstring = "nat list"

definition js :: "string \<Rightarrow> jsstring" where
  "js s = map of_char s"

definition comma :: nat where
  "comma = 44"

definition semicolon :: nat where
  "semicolon = 59"

definition newline :: nat where
  "newline = 10"

definition rightArrow :: nat where
  "rightArrow = 8594"

text \<open>\<open>s.replaceAll(a, b)\<close> for one-code-unit strings \<open>a\<close> and \<open>b\<close>.\<close>

definition replaceAll :: "nat \<Rightarrow> nat \<Rightarrow> jsstring \<Rightarrow> jsstring" where
  "replaceAll a b s = map (\<lambda>c. if c = a then b else c) s"

text \<open>\<open>s.slice(0, n)\<close> for a non-negative \<open>n\<close>.\<close>

definition slice0 :: "nat \<Rightarrow> jsstring \<Rightarrow> jsstring" where
  "slice0 n s = take n s"

text \<open>\<open>xs.join(sep)\<close> on an array of strings.\<close>

fun join :: "jsstring \<Rightarrow> jsstring list \<Rightarrow> jsstring" where
  "join sep [] = []"
| "join sep [x] = x"
| "join sep (x # y # ys) = x @ sep @ join sep (y # ys)"

subsection \<open>BigInt\<close>

text \<open>
  BigInt values are unbounded integers. BigInt division truncates towards zero, where
  \<open>div\<close> on \<open>int\<close> rounds down. Division by \<open>0n\<close> throws; both divisions of the
  program have a non-zero divisor (the literal \<open>10000n\<close>, and \<open>input\<close> behind the
  guard \<open>input === 0n\<close>).
\<close>

definition bigint_div :: "int \<Rightarrow> int \<Rightarrow> int" where
  "bigint_div a b = sgn a * sgn b * (\<bar>a\<bar> div \<bar>b\<bar>)"

fun digits :: "nat \<Rightarrow> jsstring" where
  "digits n = (if n < 10 then [48 + n] else digits (n div 10) @ [48 + n mod 10])"

declare digits.simps [simp del]

text \<open>\<open>n.toString()\<close> of a BigInt: base 10, a minus sign when negative.\<close>

definition bigint_toString :: "int \<Rightarrow> jsstring" where
  "bigint_toString n = (if n < 0 then 45 # digits (nat (- n)) else digits (nat n))"

subsection \<open>Number\<close>

text \<open>
  A Number is an IEEE 754 double. The program only ever holds integer-valued Numbers
  (and, on overflow, an infinity): \<open>Number(b)\<close> of a BigInt \<open>b\<close>, and sums and
  products of the configured gas estimates. \<open>Fin n\<close> is the double whose value is the
  integer \<open>n\<close>. Conversion and arithmetic round the exact result to the nearest double,
  ties to even: 53 significant bits, and an infinity from \<open>2 ^ 1024 - 2 ^ 970\<close> on.
\<close>

datatype jsnumber = Fin int | PosInf | NegInf

fun bitlen :: "nat \<Rightarrow> nat" where
  "bitlen n = (if n = 0 then 0 else Suc (bitlen (n div 2)))"

declare bitlen.simps [simp del]

definition round53 :: "nat \<Rightarrow> nat" where
  "round53 m =
     (let u = 2 ^ (bitlen m - 53); q = m div u; r = m mod u
      in if 2 * r < u \<or> (2 * r = u \<and> even q) then q * u else (q + 1) * u)"

definition toNumber :: "int \<Rightarrow> jsnumber" where
  "toNumber n =
     (let m = round53 (nat \<bar>n\<bar>)
      in if 2 ^ 1024 \<le> m then (if n < 0 then NegInf else PosInf)
         else Fin (sgn n * int m))"

text \<open>\<open>a + b\<close> and \<open>a * b\<close> on Numbers, for the operand shapes the program has.\<close>

definition num_mul :: "int \<Rightarrow> int \<Rightarrow> jsnumber" where
  "num_mul a b = toNumber (a * b)"

fun num_add :: "jsnumber \<Rightarrow> int \<Rightarrow> jsnumber" where
  "num_add (Fin a) b = toNumber (a + b)"
| "num_add PosInf b = PosInf"
| "num_add NegInf b = NegInf"

subsection \<open>Exceptions\<close>

text \<open>
  A thrown error, as the program reads it: \<open>e.reason\<close> (ethers sets it on a revert,
  otherwise it is absent) and \<open>e.message\<close>. \<open>errText e\<close> is \<open>e.reason || e.message\<close>:
  the reason unless it is absent or empty.
\<close>

record js_error =
  reason :: "jsstring option"
  message :: jsstring

definition errText :: "js_error \<Rightarrow> jsstring" where
  "errText e = (case reason e of
                  None \<Rightarrow> message e
                | Some r \<Rightarrow> if r = [] then message e else r)"

text \<open>\<open>new Error(msg)\<close>.\<close>

definition newError :: "jsstring \<Rightarrow> js_error" where
  "newError msg = \<lparr>reason = None, message = msg\<rparr>"

text \<open>\<open>BigInt(x)\<close> of a Number throws a RangeError unless \<open>x\<close> is an integer.\<close>

definition toBigInt :: "jsnumber \<Rightarrow> js_error + int" where
  "toBigInt x = (case x of
                   Fin n \<Rightarrow> Inr n
                 | PosInf \<Rightarrow> Inl (newError (js ''The number Infinity cannot be converted to a BigInt because it is not an integer''))
                 | NegInf \<Rightarrow> Inl (newError (js ''The number -Infinity cannot be converted to a BigInt because it is not an integer'')))"

section \<open>The quote adapters\<close>

text \<open>
  The three contracts are reached through read-only calls on the pending chain state.
  Every call the program attempts is appended to a log; what a call answers may depend
  on everything attempted before it, so the chain may change between two legs.

  A fee tier is \<open>cfg.v3FeeTiers[key]\<close>, absent (\<open>undefined\<close>) when the key is not
  configured. The packed path of the fallback form, the concatenation of \<open>tokenIn\<close>,
  the three-byte fee and \<open>tokenOut\<close>, is kept as these three components; an exception
  raised while encoding it is raised inside the same \<open>try\<close> as the call and is one
  way for that call form to fail.
\<close>

datatype call =
    GetAmountsOut int "jsstring list"
  | QuoteExactInputSingle jsstring jsstring "int option" int
  | QuoteExactInput jsstring "int option" jsstring int
  | QuotePotentialSwap jsstring jsstring int

text \<open>
  The shapes in which the quoter binding hands back its result: a bare integer, an
  ordered tuple (never empty: the ABI declares four outputs) or a record with a named
  field \<open>amountOut\<close>.
\<close>

datatype quoter_result = Bare int | Tuple int "int list" | Named int

text \<open>
  \<open>getAmountsOut\<close> answers with one amount per path element, given as the first
  amount and the rest, so that the array is never empty. \<open>quotePotentialSwap\<close>
  answers with the pair of potential outcome and haircut.
\<close>

record world =
  calls :: "call list"
  csv :: "jsstring list option"

record env =
  getAmountsOut :: "call list \<Rightarrow> int \<Rightarrow> jsstring list \<Rightarrow> js_error + int \<times> int list"
  quoteExactInputSingle ::
    "call list \<Rightarrow> jsstring \<Rightarrow> jsstring \<Rightarrow> int option \<Rightarrow> int \<Rightarrow> js_error + quoter_result"
  quoteExactInput ::
    "call list \<Rightarrow> jsstring \<Rightarrow> int option \<Rightarrow> jsstring \<Rightarrow> int \<Rightarrow> js_error + quoter_result"
  quotePotentialSwap :: "call list \<Rightarrow> jsstring \<Rightarrow> jsstring \<Rightarrow> int \<Rightarrow> js_error + int \<times> int"
  parseUnits :: "jsstring \<Rightarrow> nat \<Rightarrow> js_error + int"
  nowIso :: "world \<Rightarrow> jsstring"
  numberShortest :: "int \<Rightarrow> jsstring"

text \<open>
  \<open>csv\<close> is the file \<open>probe_ops.csv\<close>: \<open>None\<close> while it does not exist, otherwise
  the strings appended to it so far, in order (its content is their concatenation).
  \<open>parseUnits\<close> is the ethers function (it throws on a malformed decimal string),
  \<open>nowIso\<close> the clock, and \<open>numberShortest\<close> what
  \<open>Number.prototype.toString\<close> writes for a double of magnitude above \<open>2 ^ 53\<close>:
  the shortest digits that read back as the same double, padded with zeros, and in
  exponential notation from \<open>1e21\<close> on.
\<close>

definition quoteV2 ::
  "env \<Rightarrow> jsstring list \<Rightarrow> int \<Rightarrow> call list \<Rightarrow> (jsstring + int) \<times> call list" where
  "quoteV2 env path amountIn log =
     (case getAmountsOut env log amountIn path of
        Inr (a, rest) \<Rightarrow> (Inr (last (a # rest)), log @ [GetAmountsOut amountIn path])
      | Inl e \<Rightarrow> (Inl (js ''V2 quote failed: '' @ errText e), log @ [GetAmountsOut amountIn path]))"

text \<open>
  The normalisation in \<open>quoteV3Single\<close>: a bigint as it is, \<open>out[0]\<close> of an array,
  \<open>out.amountOut\<close> of a record.
\<close>

fun amountOut :: "quoter_result \<Rightarrow> int" where
  "amountOut (Bare n) = n"
| "amountOut (Tuple a rest) = a"
| "amountOut (Named n) = n"

definition quoteV3Single ::
  "env \<Rightarrow> jsstring \<Rightarrow> jsstring \<Rightarrow> int option \<Rightarrow> int \<Rightarrow> call list \<Rightarrow> (jsstring + int) \<times> call list" where
  "quoteV3Single env tokenIn tokenOut fee amountIn log =
     (let log1 = log @ [QuoteExactInputSingle tokenIn tokenOut fee amountIn]
      in case quoteExactInputSingle env log tokenIn tokenOut fee amountIn of
           Inr out \<Rightarrow> (Inr (amountOut out), log1)
         | Inl e1 \<Rightarrow>
             (let log2 = log1 @ [QuoteExactInput tokenIn fee tokenOut amountIn]
              in case quoteExactInput env log1 tokenIn fee tokenOut amountIn of
                   Inr out2 \<Rightarrow> (Inr (amountOut out2), log2)
                 | Inl e2 \<Rightarrow>
                     (Inl (js ''V3 quote failed: '' @ errText e2 @ js '' (fallback after: '' @
                           errText e1 @ js '')''), log2)))"

definition quoteWombat ::
  "env \<Rightarrow> jsstring \<Rightarrow> jsstring \<Rightarrow> int \<Rightarrow> call list \<Rightarrow> (jsstring + int) \<times> call list" where
  "quoteWombat env from to amountIn log =
     (case quotePotentialSwap env log from to amountIn of
        Inr (potentialOutcome, haircut) \<Rightarrow> (Inr potentialOutcome, log @ [QuotePotentialSwap from to amountIn])
      | Inl e \<Rightarrow> (Inl (js ''Wombat quote failed: '' @ errText e), log @ [QuotePotentialSwap from to amountIn]))"

section \<open>Configuration and route evaluators\<close>

record gas_estimates =
  v2Swap :: int
  v3Swap :: int
  wombatSwap :: int

record config =
  v3FeeTiers :: "jsstring \<rightharpoonup> int"
  gasEstimates :: gas_estimates
  flashloanFeeBps :: int
  sizesWBNB :: "jsstring list"

record token =
  addr :: jsstring
  dec :: nat

record tokens =
  WBNB :: token
  USDT :: token
  USDC :: token
  BUSD :: token

text \<open>\<open>ctx.syms\<close>: the four symbols are constants of \<open>main\<close>.\<close>

definition symWBNB :: jsstring where "symWBNB = js ''WBNB''"
definition symUSDT :: jsstring where "symUSDT = js ''USDT''"
definition symUSDC :: jsstring where "symUSDC = js ''USDC''"
definition symBUSD :: jsstring where "symBUSD = js ''BUSD''"

text \<open>
  A route outcome: \<open>{ ok: true, routeType, legs, in, out }\<close> or
  \<open>{ ok: false, error, routeType }\<close>.
\<close>

datatype outcome =
    Success jsstring jsstring int int
  | Failure jsstring jsstring

text \<open>The route types of the two cross-version directions, written with U+2192.\<close>

definition V2toV3 :: jsstring where
  "V2toV3 = js ''V2'' @ [rightArrow] @ js ''V3''"

definition V3toV2 :: jsstring where
  "V3toV2 = js ''V3'' @ [rightArrow] @ js ''V2''"

definition crossRouteType :: "jsstring \<Rightarrow> jsstring" where
  "crossRouteType dir = (if dir = js ''V2->V3'' then V2toV3 else V3toV2)"

definition evalCrossVersion ::
  "env \<Rightarrow> config \<Rightarrow> tokens \<Rightarrow> jsstring \<Rightarrow> int \<Rightarrow> call list \<Rightarrow> outcome \<times> call list" where
  "evalCrossVersion env cfg ctx dir sizeInWBNB log =
     (let wbnb = addr (WBNB ctx); usdt = addr (USDT ctx);
          legs = dir @ js '':'' @ symWBNB @ js ''->'' @ symUSDT @ js ''->'' @ symWBNB
      in if dir = js ''V2->V3'' then
           (case quoteV2 env [wbnb, usdt] sizeInWBNB log of
              (Inl m, log1) \<Rightarrow> (Failure m (crossRouteType dir), log1)
            | (Inr midOut, log1) \<Rightarrow>
                (case quoteV3Single env usdt wbnb (v3FeeTiers cfg (js ''USDT/WBNB'')) midOut log1 of
                   (Inl m, log2) \<Rightarrow> (Failure m (crossRouteType dir), log2)
                 | (Inr finalOut, log2) \<Rightarrow>
                     (Success (crossRouteType dir) legs sizeInWBNB finalOut, log2)))
         else
           (case quoteV3Single env wbnb usdt (v3FeeTiers cfg (js ''WBNB/USDT'')) sizeInWBNB log of
              (Inl m, log1) \<Rightarrow> (Failure m (crossRouteType dir), log1)
            | (Inr midOut, log1) \<Rightarrow>
                (case quoteV2 env [usdt, wbnb] midOut log1 of
                   (Inl m, log2) \<Rightarrow> (Failure m (crossRouteType dir), log2)
                 | (Inr finalOut, log2) \<Rightarrow>
                     (Success (crossRouteType dir) legs sizeInWBNB finalOut, log2))))"

definition evalTriangleV2 :: "env \<Rightarrow> tokens \<Rightarrow> int \<Rightarrow> call list \<Rightarrow> outcome \<times> call list" where
  "evalTriangleV2 env ctx sizeInWBNB log =
     (let path = [addr (WBNB ctx), addr (USDT ctx), addr (BUSD ctx), addr (WBNB ctx)]
      in case quoteV2 env path sizeInWBNB log of
           (Inl m, log1) \<Rightarrow> (Failure m (js ''TRI''), log1)
         | (Inr out, log1) \<Rightarrow>
             (Success (js ''TRI'')
                (js ''TRI_V2:'' @ symWBNB @ js ''->'' @ symUSDT @ js ''->'' @ symBUSD @ js ''->'' @ symWBNB)
                sizeInWBNB out, log1))"

definition wombatRouteType :: "jsstring \<Rightarrow> jsstring" where
  "wombatRouteType variant =
     (if variant = js ''A'' then js ''TRI_WOMBAT_A'' else js ''TRI_WOMBAT_B'')"

definition evalTriangleWombat ::
  "env \<Rightarrow> tokens \<Rightarrow> jsstring \<Rightarrow> int \<Rightarrow> call list \<Rightarrow> outcome \<times> call list" where
  "evalTriangleWombat env ctx variant sizeInWBNB log =
     (let wbnb = addr (WBNB ctx); usdt = addr (USDT ctx); usdc = addr (USDC ctx)
      in if variant = js ''A'' then
           (case quoteV2 env [wbnb, usdt] sizeInWBNB log of
              (Inl m, log1) \<Rightarrow> (Failure m (wombatRouteType variant), log1)
            | (Inr leg1Out, log1) \<Rightarrow>
                (case quoteWombat env usdt usdc leg1Out log1 of
                   (Inl m, log2) \<Rightarrow> (Failure m (wombatRouteType variant), log2)
                 | (Inr leg2Out, log2) \<Rightarrow>
                     (case quoteV2 env [usdc, wbnb] leg2Out log2 of
                        (Inl m, log3) \<Rightarrow> (Failure m (wombatRouteType variant), log3)
                      | (Inr finalOut, log3) \<Rightarrow>
                          (Success (js ''TRI_WOMBAT_A'')
                             (js ''TRI_WOMBAT_A:'' @ symWBNB @ js ''->'' @ symUSDT @ js '' (V2)->'' @
                              symUSDC @ js '' (Wombat)->'' @ symWBNB @ js '' (V2)'')
                             sizeInWBNB finalOut, log3))))
         else
           (case quoteV2 env [wbnb, usdc] sizeInWBNB log of
              (Inl m, log1) \<Rightarrow> (Failure m (wombatRouteType variant), log1)
            | (Inr leg1Out, log1) \<Rightarrow>
                (case quoteWombat env usdc usdt leg1Out log1 of
                   (Inl m, log2) \<Rightarrow> (Failure m (wombatRouteType variant), log2)
                 | (Inr leg2Out, log2) \<Rightarrow>
                     (case quoteV2 env [usdt, wbnb] leg2Out log2 of
                        (Inl m, log3) \<Rightarrow> (Failure m (wombatRouteType variant), log3)
                      | (Inr finalOut, log3) \<Rightarrow>
                          (Success (js ''TRI_WOMBAT_B'')
                             (js ''TRI_WOMBAT_B:'' @ symWBNB @ js ''->'' @ symUSDC @ js '' (V2)->'' @
                              symUSDT @ js '' (Wombat)->'' @ symWBNB @ js '' (V2)'')
                             sizeInWBNB finalOut, log3)))))"

section \<open>Gas and fees\<close>

definition estimateGasUnitsForRoute :: "jsstring \<Rightarrow> config \<Rightarrow> jsnumber" where
  "estimateGasUnitsForRoute routeType cfg =
     (let g = gasEstimates cfg
      in if routeType = V2toV3 \<or> routeType = V3toV2
         then num_add (Fin (v2Swap g)) (v3Swap g)
         else if routeType = js ''TRI'' then num_mul (v2Swap g) 3
         else if routeType = js ''TRI_WOMBAT_A'' \<or> routeType = js ''TRI_WOMBAT_B''
         then num_add (num_mul (v2Swap g) 2) (wombatSwap g)
         else num_mul (v2Swap g) 2)"

definition flashloanFeeInWBNB :: "int \<Rightarrow> config \<Rightarrow> int" where
  "flashloanFeeInWBNB amountInWBNB cfg = bigint_div (amountInWBNB * flashloanFeeBps cfg) 10000"

definition gasCostInWBNB :: "int \<Rightarrow> jsnumber \<Rightarrow> js_error + int" where
  "gasCostInWBNB gasPriceWei gasUnits =
     (case toBigInt gasUnits of Inl e \<Rightarrow> Inl e | Inr u \<Rightarrow> Inr (gasPriceWei * u))"

definition safePctBps :: "int \<Rightarrow> int \<Rightarrow> jsnumber" where
  "safePctBps pnl input = (if input = 0 then Fin 0 else toNumber (bigint_div (pnl * 10000) input))"

section \<open>Rows of the CSV file\<close>

definition CSV_HEADERS :: "jsstring list" where
  "CSV_HEADERS = map js [''timestamp'', ''routeType'', ''size'', ''legs'', ''in'', ''out'', ''pnl'',
     ''bps'', ''gasCostWBNB'', ''flashFeeWBNB'', ''netPnl'', ''note'']"

text \<open>
  A row is an object from header names to strings. \<open>row[h]\<close> of a missing key is
  \<open>undefined\<close>, which \<open>join\<close> writes as the empty string.
\<close>

type_synonym row = "(jsstring \<times> jsstring) list"

definition cell :: "row \<Rightarrow> jsstring \<Rightarrow> jsstring" where
  "cell r h = (case map_of r h of None \<Rightarrow> [] | Some v \<Rightarrow> v)"

definition csvLine :: "jsstring list \<Rightarrow> row \<Rightarrow> jsstring" where
  "csvLine headers r = join [comma] (map (cell r) headers) @ [newline]"

definition headerLine :: "jsstring list \<Rightarrow> jsstring" where
  "headerLine headers = join [comma] headers @ [newline]"

text \<open>\<open>fs.appendFileSync\<close> creates the file when it does not exist.\<close>

definition appendFileSync :: "jsstring list option \<Rightarrow> jsstring \<Rightarrow> jsstring list option" where
  "appendFileSync file data = (case file of None \<Rightarrow> Some [data] | Some written \<Rightarrow> Some (written @ [data]))"

definition appendCsvRow :: "jsstring list option \<Rightarrow> jsstring list \<Rightarrow> row \<Rightarrow> jsstring list option" where
  "appendCsvRow file headers r =
     (let exists = (file \<noteq> None);
          line = csvLine headers r;
          file1 = (if \<not> exists then appendFileSync file (headerLine headers) else file)
      in appendFileSync file1 line)"

text \<open>
  \<open>x.toString()\<close> of a Number. Up to \<open>2 ^ 53\<close> every integer is a double and its
  shortest digits are its decimal digits; beyond that the digits written are the
  shortest that read back as the same double, not the digits of its exact value.
\<close>

definition number_toString :: "env \<Rightarrow> jsnumber \<Rightarrow> jsstring" where
  "number_toString env x =
     (case x of
        Fin n \<Rightarrow> if \<bar>n\<bar> \<le> 2 ^ 53 then bigint_toString n else numberShortest env n
      | PosInf \<Rightarrow> js ''Infinity''
      | NegInf \<Rightarrow> js ''-Infinity'')"

section \<open>One polling cycle of main\<close>

text \<open>An entry of \<open>batchResults\<close>.\<close>

record scored =
  routeType :: jsstring
  sizeLabel :: jsstring
  legs :: jsstring
  inAmount :: int
  outAmount :: int
  pnl :: int
  bps :: jsnumber
  gasWBNB :: int
  flashFee :: int
  netPnl :: int
  noteText :: jsstring

text \<open>
  The three blocks of the loop body differ in the evaluator they call and in the prefix
  of the failure note only.
\<close>

datatype block = CrossVersion | TriangleV2 | TriangleWombat

fun errPrefix :: "block \<Rightarrow> jsstring" where
  "errPrefix CrossVersion = js ''ERR 1one:''"
| "errPrefix TriangleV2 = js ''ERR 2two:''"
| "errPrefix TriangleWombat = js ''ERR 3three:''"

definition failureNote :: "block \<Rightarrow> jsstring \<Rightarrow> jsstring" where
  "failureNote b err = errPrefix b @ slice0 160 (replaceAll comma semicolon err)"

definition failureRow :: "jsstring \<Rightarrow> jsstring \<Rightarrow> jsstring \<Rightarrow> block \<Rightarrow> jsstring \<Rightarrow> row" where
  "failureRow ts rt sz b err =
     [(js ''timestamp'', ts), (js ''routeType'', rt), (js ''size'', sz), (js ''legs'', []),
      (js ''in'', js ''0''), (js ''out'', js ''0''), (js ''pnl'', js ''0''), (js ''bps'', js ''0''),
      (js ''gasCostWBNB'', js ''0''), (js ''flashFeeWBNB'', js ''0''), (js ''netPnl'', js ''0''),
      (js ''note'', failureNote b err)]"

definition successRow :: "env \<Rightarrow> jsstring \<Rightarrow> scored \<Rightarrow> row" where
  "successRow env ts s =
     [(js ''timestamp'', ts), (js ''routeType'', routeType s), (js ''size'', sizeLabel s),
      (js ''legs'', legs s), (js ''in'', bigint_toString (inAmount s)),
      (js ''out'', bigint_toString (outAmount s)), (js ''pnl'', bigint_toString (pnl s)),
      (js ''bps'', number_toString env (bps s)), (js ''gasCostWBNB'', bigint_toString (gasWBNB s)),
      (js ''flashFeeWBNB'', bigint_toString (flashFee s)), (js ''netPnl'', bigint_toString (netPnl s)),
      (js ''note'', [])]"

text \<open>
  Scoring a successful outcome: the entry pushed to \<open>batchResults\<close>. It throws when
  \<open>BigInt(gasUnits)\<close> does.
\<close>

definition score ::
  "config \<Rightarrow> int \<Rightarrow> jsstring \<Rightarrow> int \<Rightarrow> jsstring \<Rightarrow> jsstring \<Rightarrow> int \<Rightarrow> int \<Rightarrow> js_error + scored" where
  "score cfg gasPriceWei sz sizeIn rt lg i out =
     (case gasCostInWBNB gasPriceWei (estimateGasUnitsForRoute rt cfg) of
        Inl e \<Rightarrow> Inl e
      | Inr gas \<Rightarrow>
          (let fee = flashloanFeeInWBNB sizeIn cfg;
               p = out - i;
               net = p - gas - fee;
               b = safePctBps p i
           in Inr \<lparr>routeType = rt, sizeLabel = sz, legs = lg, inAmount = i, outAmount = out,
                    pnl = p, bps = b, gasWBNB = gas, flashFee = fee, netPnl = net, noteText = []\<rparr>))"

text \<open>
  What each block does with an outcome \<open>r\<close>: a success is scored, pushed to the batch
  and written as a row; a failure is written as a row.
\<close>

definition recordOutcome ::
  "env \<Rightarrow> config \<Rightarrow> int \<Rightarrow> block \<Rightarrow> jsstring \<Rightarrow> int \<Rightarrow> outcome \<Rightarrow> world \<times> scored list \<Rightarrow>
   js_error + world \<times> scored list" where
  "recordOutcome env cfg gasPriceWei b sz sizeIn r st =
     (case st of (w, batch) \<Rightarrow>
        (case r of
           Success rt lg i out \<Rightarrow>
             (case score cfg gasPriceWei sz sizeIn rt lg i out of
                Inl e \<Rightarrow> Inl e
              | Inr s \<Rightarrow>
                  Inr (w\<lparr>csv := appendCsvRow (csv w) CSV_HEADERS (successRow env (nowIso env w) s)\<rparr>,
                       batch @ [s]))
         | Failure err rt \<Rightarrow>
             Inr (w\<lparr>csv := appendCsvRow (csv w) CSV_HEADERS (failureRow (nowIso env w) rt sz b err)\<rparr>,
                  batch)))"

text \<open>A \<open>for ... of\<close> loop whose body may throw.\<close>

fun forEach :: "'a list \<Rightarrow> ('a \<Rightarrow> 's \<Rightarrow> js_error + 's) \<Rightarrow> 's \<Rightarrow> js_error + 's" where
  "forEach [] body s = Inr s"
| "forEach (x # xs) body s = (case body x s of Inl e \<Rightarrow> Inl e | Inr s' \<Rightarrow> forEach xs body s')"

definition crossBlock ::
  "env \<Rightarrow> config \<Rightarrow> tokens \<Rightarrow> int \<Rightarrow> jsstring \<Rightarrow> int \<Rightarrow> jsstring \<Rightarrow> world \<times> scored list \<Rightarrow>
   js_error + world \<times> scored list" where
  "crossBlock env cfg ctx gasPriceWei sz sizeIn dir st =
     (case evalCrossVersion env cfg ctx dir sizeIn (calls (fst st)) of
        (r, log) \<Rightarrow>
          recordOutcome env cfg gasPriceWei CrossVersion sz sizeIn r ((fst st)\<lparr>calls := log\<rparr>, snd st))"

definition triangleBlock ::
  "env \<Rightarrow> config \<Rightarrow> tokens \<Rightarrow> int \<Rightarrow> jsstring \<Rightarrow> int \<Rightarrow> world \<times> scored list \<Rightarrow>
   js_error + world \<times> scored list" where
  "triangleBlock env cfg ctx gasPriceWei sz sizeIn st =
     (case evalTriangleV2 env ctx sizeIn (calls (fst st)) of
        (r, log) \<Rightarrow>
          recordOutcome env cfg gasPriceWei TriangleV2 sz sizeIn r ((fst st)\<lparr>calls := log\<rparr>, snd st))"

definition wombatBlock ::
  "env \<Rightarrow> config \<Rightarrow> tokens \<Rightarrow> int \<Rightarrow> jsstring \<Rightarrow> int \<Rightarrow> jsstring \<Rightarrow> world \<times> scored list \<Rightarrow>
   js_error + world \<times> scored list" where
  "wombatBlock env cfg ctx gasPriceWei sz sizeIn variant st =
     (case evalTriangleWombat env ctx variant sizeIn (calls (fst st)) of
        (r, log) \<Rightarrow>
          recordOutcome env cfg gasPriceWei TriangleWombat sz sizeIn r ((fst st)\<lparr>calls := log\<rparr>, snd st))"

text \<open>The body of \<open>for (const sz of sizesWBNB)\<close>.\<close>

definition sizeBody ::
  "env \<Rightarrow> config \<Rightarrow> tokens \<Rightarrow> int \<Rightarrow> jsstring \<Rightarrow> world \<times> scored list \<Rightarrow> js_error + world \<times> scored list" where
  "sizeBody env cfg ctx gasPriceWei sz st =
     (case parseUnits env sz (dec (WBNB ctx)) of
        Inl e \<Rightarrow> Inl e
      | Inr sizeIn \<Rightarrow>
          (case forEach [js ''V2->V3'', js ''V3->V2''] (crossBlock env cfg ctx gasPriceWei sz sizeIn) st of
             Inl e \<Rightarrow> Inl e
           | Inr st1 \<Rightarrow>
               (case triangleBlock env cfg ctx gasPriceWei sz sizeIn st1 of
                  Inl e \<Rightarrow> Inl e
                | Inr st2 \<Rightarrow>
                    forEach [js ''A'', js ''B''] (wombatBlock env cfg ctx gasPriceWei sz sizeIn) st2)))"

text \<open>\<open>cfg.sizesWBNB?.length ? cfg.sizesWBNB : [...]\<close>: an absent or empty list is replaced.\<close>

definition sizesOf :: "config \<Rightarrow> jsstring list" where
  "sizesOf cfg =
     (if sizesWBNB cfg = [] then map js [''0.01'', ''0.02'', ''0.05'', ''0.1''] else sizesWBNB cfg)"

subsection \<open>Ranking\<close>

text \<open>
  \<open>Array.prototype.sort\<close> is stable, and its result for a consistent comparator is
  determined by that: the elements in the comparator's order, equal ones in their
  original order. Insertion from the right computes it. The comparator is the one
  of \<open>main\<close>; the \<open>filter\<close> before it keeps the entries whose \<open>pnl\<close> is a bigint,
  which every entry's is.
\<close>

definition byPnl :: "scored \<Rightarrow> scored \<Rightarrow> int" where
  "byPnl a b = (if pnl a > pnl b then - 1 else if pnl a < pnl b then 1 else 0)"

fun insertBy :: "('a \<Rightarrow> 'a \<Rightarrow> int) \<Rightarrow> 'a \<Rightarrow> 'a list \<Rightarrow> 'a list" where
  "insertBy cmp x [] = [x]"
| "insertBy cmp x (y # ys) = (if cmp x y \<le> 0 then x # y # ys else y # insertBy cmp x ys)"

fun sortBy :: "('a \<Rightarrow> 'a \<Rightarrow> int) \<Rightarrow> 'a list \<Rightarrow> 'a list" where
  "sortBy cmp [] = []"
| "sortBy cmp (x # xs) = insertBy cmp x (sortBy cmp xs)"

definition hasBigIntPnl :: "scored \<Rightarrow> bool" where
  "hasBigIntPnl r = True"

definition ranked :: "scored list \<Rightarrow> scored list" where
  "ranked batchResults = take 10 (sortBy byPnl (filter hasBigIntPnl batchResults))"

text \<open>What the cycle prints: the table of the ranked entries, or the line that there are none.\<close>

datatype report = Top10 "scored list" | NoSuccessfulQuotes

definition reportOf :: "scored list \<Rightarrow> report" where
  "reportOf batchResults =
     (if ranked batchResults \<noteq> [] then Top10 (ranked batchResults) else NoSuccessfulQuotes)"

text \<open>
  One iteration of \<open>while (true)\<close>, up to the \<open>sleep\<close>: an exception leaves the loop
  and ends the process.
\<close>

definition cycle ::
  "env \<Rightarrow> config \<Rightarrow> tokens \<Rightarrow> int \<Rightarrow> world \<Rightarrow> js_error + world \<times> scored list \<times> report" where
  "cycle env cfg ctx gasPriceWei w =
     (case forEach (sizesOf cfg) (sizeBody env cfg ctx gasPriceWei) (w, []) of
        Inl e \<Rightarrow> Inl e
      | Inr (w', batch) \<Rightarrow> Inr (w', batch, reportOf batch))"

subsection \<open>The file over a run\<close>

text \<open>
  The program touches the file through \<open>appendCsvRow\<close> only. \<open>appendRows\<close> is a
  sequence of such calls. \<open>opened file\<close> is what the file holds in front of the rows
  of a run: what it held before, or the header line when it did not exist.
\<close>

fun appendRows :: "jsstring list option \<Rightarrow> jsstring list \<Rightarrow> row list \<Rightarrow> jsstring list option" where
  "appendRows file headers [] = file"
| "appendRows file headers (r # rs) = appendRows (appendCsvRow file headers r) headers rs"

definition opened :: "jsstring list option \<Rightarrow> jsstring list" where
  "opened file = (case file of None \<Rightarrow> [headerLine CSV_HEADERS] | Some written \<Rightarrow> written)"

subsection \<open>Example inputs\<close>

text \<open>
  A configuration with tiny gas estimates, so that at a gas price of 1 wei the two
  cross-version routes cost 5 wei of gas, and a flash-loan fee of 10 basis points.
\<close>

definition exampleConfig :: config where
  "exampleConfig =
     \<lparr>v3FeeTiers = [js ''USDT/WBNB'' \<mapsto> 2500, js ''WBNB/USDT'' \<mapsto> 2500],
      gasEstimates = \<lparr>v2Swap = 2, v3Swap = 3, wombatSwap = 4\<rparr>,
      flashloanFeeBps = 10,
      sizesWBNB = [js ''0.000000000000001'']\<rparr>"

definition exampleTokens :: tokens where
  "exampleTokens =
     \<lparr>WBNB = \<lparr>addr = js ''0xbb4C'', dec = 18\<rparr>,
      USDT = \<lparr>addr = js ''0x5539'', dec = 18\<rparr>,
      USDC = \<lparr>addr = js ''0x8AC7'', dec = 18\<rparr>,
      BUSD = \<lparr>addr = js ''0xe9e7'', dec = 18\<rparr>\<rparr>"

definition revert :: js_error where
  "revert = \<lparr>reason = Some (js ''no liquidity''), message = js ''execution reverted: no liquidity''\<rparr>"

definition timeout :: js_error where
  "timeout = \<lparr>reason = None, message = js ''request timeout''\<rparr>"

text \<open>
  A chain on which the first \<open>n\<close> calls of a run succeed and every later one reverts.
  A constant-product quote adds 50 to its input, a concentrated-liquidity quote takes
  10 off, a stable swap takes 1 off. The sizes that parse, at 18 decimals, are the
  size of the example configuration, which is 1000 in the smallest unit, and the four
  default sizes.
\<close>

definition exampleEnv :: "nat \<Rightarrow> env" where
  "exampleEnv n =
     \<lparr>getAmountsOut = (\<lambda>log a path. if length log < n then Inr (a, [a + 50]) else Inl revert),
      quoteExactInputSingle = (\<lambda>log tIn tOut fee a. if length log < n then Inr (Bare (a - 10)) else Inl revert),
      quoteExactInput = (\<lambda>log tIn fee tOut a. if length log < n then Inr (Tuple (a - 10) [0, 0, 0]) else Inl timeout),
      quotePotentialSwap = (\<lambda>log f t a. if length log < n then Inr (a - 1, 1) else Inl revert),
      parseUnits = (\<lambda>s d.
        if d \<noteq> 18 then Inl (newError (js ''invalid FixedNumber string value''))
        else if s = js ''0.000000000000001'' then Inr 1000
        else if s = js ''0.01'' then Inr 10000000000000000
        else if s = js ''0.02'' then Inr 20000000000000000
        else if s = js ''0.05'' then Inr 50000000000000000
        else if s = js ''0.1'' then Inr 100000000000000000
        else Inl (newError (js ''invalid FixedNumber string value''))),
      nowIso = (\<lambda>w. js ''2024-01-01T00:00:00.000Z''),
      numberShortest = (\<lambda>n. js ''1e+21'')\<rparr>"




text \<open>The start of a run: nothing called yet, no file.\<close>

definition freshWorld :: world where
  "freshWorld = \<lparr>calls = [], csv = None\<rparr>"

text \<open>
  The five entries that one cycle scores on the example chain when every call succeeds,
  at a gas price of 1 wei: the cross-version routes return 1040 for 1000, the triangle
  1050, the stable-hop triangles 1099.
\<close>

definition entryV2V3 :: scored where
  "entryV2V3 =
     \<lparr>routeType = V2toV3, sizeLabel = js ''0.000000000000001'', legs = js ''V2->V3:WBNB->USDT->WBNB'',
      inAmount = 1000, outAmount = 1040, pnl = 40, bps = Fin 400, gasWBNB = 5, flashFee = 1,
      netPnl = 34, noteText = []\<rparr>"

definition entryV3V2 :: scored where
  "entryV3V2 =
     \<lparr>routeType = V3toV2, sizeLabel = js ''0.000000000000001'', legs = js ''V3->V2:WBNB->USDT->WBNB'',
      inAmount = 1000, outAmount = 1040, pnl = 40, bps = Fin 400, gasWBNB = 5, flashFee = 1,
      netPnl = 34, noteText = []\<rparr>"

definition entryTRI :: scored where
  "entryTRI =
     \<lparr>routeType = js ''TRI'', sizeLabel = js ''0.000000000000001'',
      legs = js ''TRI_V2:WBNB->USDT->BUSD->WBNB'',
      inAmount = 1000, outAmount = 1050, pnl = 50, bps = Fin 500, gasWBNB = 6, flashFee = 1,
      netPnl = 43, noteText = []\<rparr>"

definition entryWombatA :: scored where
  "entryWombatA =
     \<lparr>routeType = js ''TRI_WOMBAT_A'', sizeLabel = js ''0.000000000000001'',
      legs = js ''TRI_WOMBAT_A:WBNB->USDT (V2)->USDC (Wombat)->WBNB (V2)'',
      inAmount = 1000, outAmount = 1099, pnl = 99, bps = Fin 990, gasWBNB = 8, flashFee = 1,
      netPnl = 90, noteText = []\<rparr>"

definition entryWombatB :: scored where
  "entryWombatB =
     \<lparr>routeType = js ''TRI_WOMBAT_B'', sizeLabel = js ''0.000000000000001'',
      legs = js ''TRI_WOMBAT_B:WBNB->USDC (V2)->USDT (Wombat)->WBNB (V2)'',
      inAmount = 1000, outAmount = 1099, pnl = 99, bps = Fin 990, gasWBNB = 8, flashFee = 1,
      netPnl = 90, noteText = []\<rparr>"

text \<open>
  The example configuration with no trade size configured, and what one cycle leaves
  for a size on the chain where every call reverts: the six calls attempted and the
  five rows written.
\<close>

definition noSizesConfig :: config where
  "noSizesConfig = exampleConfig\<lparr>sizesWBNB := []\<rparr>"

definition failedCalls :: "int \<Rightarrow> call list" where
  "failedCalls a =
     [GetAmountsOut a [js ''0xbb4C'', js ''0x5539''],
      QuoteExactInputSingle (js ''0xbb4C'') (js ''0x5539'') (Some 2500) a,
      QuoteExactInput (js ''0xbb4C'') (Some 2500) (js ''0x5539'') a,
      GetAmountsOut a [js ''0xbb4C'', js ''0x5539'', js ''0xe9e7'', js ''0xbb4C''],
      GetAmountsOut a [js ''0xbb4C'', js ''0x5539''],
      GetAmountsOut a [js ''0xbb4C'', js ''0x8AC7'']]"

definition failureRows :: "jsstring \<Rightarrow> row list" where
  "failureRows sz =
     [failureRow (js ''2024-01-01T00:00:00.000Z'') V2toV3 sz CrossVersion
        (js ''V2 quote failed: no liquidity''),
      failureRow (js ''2024-01-01T00:00:00.000Z'') V3toV2 sz CrossVersion
        (js ''V3 quote failed: request timeout (fallback after: no liquidity)''),
      failureRow (js ''2024-01-01T00:00:00.000Z'') (js ''TRI'') sz TriangleV2
        (js ''V2 quote failed: no liquidity''),
      failureRow (js ''2024-01-01T00:00:00.000Z'') (js ''TRI_WOMBAT_A'') sz TriangleWombat
        (js ''V2 quote failed: no liquidity''),
      failureRow (js ''2024-01-01T00:00:00.000Z'') (js ''TRI_WOMBAT_B'') sz TriangleWombat
        (js ''V2 quote failed: no liquidity'')]"

section \<open>Numbers: where conversion is exact\<close>

lemma bitlen_0: "bitlen 0 = 0"
  by (subst bitlen.simps) simp

lemma bitlen_pos: "0 < m \<Longrightarrow> bitlen m = Suc (bitlen (m div 2))"
  by (subst bitlen.simps) simp

lemma bitlen_le: "m < 2 ^ k \<Longrightarrow> bitlen m \<le> k"
proof (induction k arbitrary: m)
  case 0
  then show ?case by (simp add: bitlen_0)
next
  case (Suc k)
  show ?case
  proof (cases "m = 0")
    case True
    then show ?thesis by (simp add: bitlen_0)
  next
    case False
    from Suc.prems have "m div 2 < 2 ^ k" by simp
    then have "bitlen (m div 2) \<le> k" by (rule Suc.IH)
    with False show ?thesis by (simp add: bitlen_pos)
  qed
qed

lemma bitlen_eq: "2 ^ k \<le> m \<Longrightarrow> m < 2 ^ Suc k \<Longrightarrow> bitlen m = Suc k"
proof (induction k arbitrary: m)
  case 0
  then have "m = 1" by simp
  then show ?case by (simp add: bitlen_pos bitlen_0)
next
  case (Suc k)
  then have "0 < m" by (metis gr0I not_le zero_less_numeral zero_less_power)
  moreover from Suc.prems have "2 ^ k \<le> m div 2" "m div 2 < 2 ^ Suc k" by simp_all
  then have "bitlen (m div 2) = Suc k" by (rule Suc.IH)
  ultimately show ?case by (simp add: bitlen_pos)
qed

lemma bitlen_pow2: "bitlen (2 ^ k) = Suc k"
  by (rule bitlen_eq) simp_all

lemma round53_small: "m < 2 ^ 53 \<Longrightarrow> round53 m = m"
proof -
  assume "m < 2 ^ 53"
  then have "bitlen m - 53 = 0" using bitlen_le [of m 53] by simp
  then show ?thesis by (simp add: round53_def)
qed

lemma round53_pow53: "round53 (2 ^ 53) = 2 ^ 53"
proof -
  have "bitlen (2 ^ 53) - 53 = 1" by (simp only: bitlen_pow2)
  then have "round53 (2 ^ 53) = (2 ^ 53 div 2) * 2"
    unfolding round53_def Let_def by (simp only:) simp
  then show ?thesis by simp
qed

lemma round53_le: "m \<le> 2 ^ 53 \<Longrightarrow> round53 m = m"
  using round53_small [of m] round53_pow53 by (cases "m = 2 ^ 53") auto

text \<open>Every integer of magnitude at most \<open>2 ^ 53\<close> is a double.\<close>

lemma toNumber_exact: "\<bar>n\<bar> \<le> 2 ^ 53 \<Longrightarrow> toNumber n = Fin n"
proof -
  assume a: "\<bar>n\<bar> \<le> 2 ^ 53"
  then have b: "nat \<bar>n\<bar> \<le> 2 ^ 53" by (simp add: nat_le_iff)
  then have r: "round53 (nat \<bar>n\<bar>) = nat \<bar>n\<bar>" by (rule round53_le)
  have "(2::nat) ^ 53 < 2 ^ 1024" by (rule power_strict_increasing) simp_all
  with b have c: "\<not> (2::nat) ^ 1024 \<le> nat \<bar>n\<bar>" by linarith
  have d: "sgn n * int (nat \<bar>n\<bar>) = n" by (simp add: mult_sgn_abs)
  show ?thesis unfolding toNumber_def Let_def r using c d by simp
qed

text \<open>\<open>2 ^ 53 + 1\<close> is the first integer that is not: it lies halfway and goes to the even side.\<close>

lemma round53_first_inexact: "round53 9007199254740993 = 9007199254740992"
proof -
  have "bitlen 9007199254740993 = 54"
    using bitlen_eq [of 53 9007199254740993] by simp
  then show ?thesis unfolding round53_def Let_def by simp
qed

lemma toNumber_first_inexact:
  "toNumber 9007199254740993 = Fin 9007199254740992"
  "toNumber (- 9007199254740993) = Fin (- 9007199254740992)"
proof -
  have "\<not> (2::nat) ^ 1024 \<le> 9007199254740992"
    using power_strict_increasing [of 53 1024 "2::nat"] by simp
  then show "toNumber 9007199254740993 = Fin 9007199254740992"
    and "toNumber (- 9007199254740993) = Fin (- 9007199254740992)"
    unfolding toNumber_def Let_def by (simp_all add: round53_first_inexact)
qed

text \<open>BigInt division truncates: the quotient's magnitude is that of the magnitudes.\<close>

lemma bigint_div_abs: "\<bar>bigint_div a b\<bar> = \<bar>a\<bar> div \<bar>b\<bar>"
proof (cases "a = 0 \<or> b = 0")
  case True
  then show ?thesis by (auto simp: bigint_div_def)
next
  case False
  have "0 \<le> \<bar>a\<bar> div \<bar>b\<bar>" by (simp add: div_int_pos_iff)
  with False show ?thesis by (simp add: bigint_div_def abs_mult abs_sgn_eq)
qed

lemma bigint_div_sgn: "bigint_div a b \<noteq> 0 \<Longrightarrow> sgn (bigint_div a b) = sgn a * sgn b"
proof -
  assume nz: "bigint_div a b \<noteq> 0"
  then have "\<bar>a\<bar> div \<bar>b\<bar> \<noteq> 0" by (auto simp: bigint_div_def)
  moreover have "0 \<le> \<bar>a\<bar> div \<bar>b\<bar>" by (simp add: div_int_pos_iff)
  ultimately have "sgn (\<bar>a\<bar> div \<bar>b\<bar>) = 1" by simp
  then show ?thesis by (simp add: bigint_div_def sgn_mult)
qed

section \<open>Strings\<close>

lemma js_eq_iff: "js s = js t \<longleftrightarrow> s = t"
proof -
  have "inj (of_char :: char \<Rightarrow> nat)" by (rule injI) simp
  then show ?thesis by (simp add: js_def inj_map_eq_map)
qed


lemma length_js: "length (js s) = length s"
  by (simp add: js_def)

section \<open>The adapters and the call log\<close>

lemma quoteV2_log: "snd (quoteV2 env path a log) = log @ [GetAmountsOut a path]"
  by (simp add: quoteV2_def split: sum.splits prod.splits)

lemma quoteWombat_log: "snd (quoteWombat env f t a log) = log @ [QuotePotentialSwap f t a]"
  by (simp add: quoteWombat_def split: sum.splits prod.splits)

lemma quoteV3Single_log:
  "snd (quoteV3Single env tIn tOut fee a log) =
     (case quoteExactInputSingle env log tIn tOut fee a of
        Inr out \<Rightarrow> log @ [QuoteExactInputSingle tIn tOut fee a]
      | Inl e \<Rightarrow> log @ [QuoteExactInputSingle tIn tOut fee a, QuoteExactInput tIn fee tOut a])"
  by (simp add: quoteV3Single_def Let_def split: sum.splits)

subsection \<open>The adapters on the example chain\<close>

lemma errText_revert: "errText revert = js ''no liquidity''"
  by (simp add: errText_def revert_def js_def)

lemma errText_timeout: "errText timeout = js ''request timeout''"
  by (simp add: errText_def timeout_def)

lemma exampleEnv_quoteV2:
  "quoteV2 (exampleEnv n) path a log =
     (if length log < n then Inr (a + 50) else Inl (js ''V2 quote failed: no liquidity''),
      log @ [GetAmountsOut a path])"
  by (simp add: quoteV2_def exampleEnv_def errText_revert js_def)

lemma exampleEnv_quoteWombat:
  "quoteWombat (exampleEnv n) f t a log =
     (if length log < n then Inr (a - 1) else Inl (js ''Wombat quote failed: no liquidity''),
      log @ [QuotePotentialSwap f t a])"
  by (simp add: quoteWombat_def exampleEnv_def errText_revert js_def)

lemma exampleEnv_quoteV3Single:
  "quoteV3Single (exampleEnv n) tIn tOut fee a log =
     (if length log < n then (Inr (a - 10), log @ [QuoteExactInputSingle tIn tOut fee a])
      else (Inl (js ''V3 quote failed: request timeout (fallback after: no liquidity)''),
            log @ [QuoteExactInputSingle tIn tOut fee a, QuoteExactInput tIn fee tOut a]))"
  by (simp add: quoteV3Single_def exampleEnv_def errText_revert errText_timeout js_def Let_def)

section \<open>The loops of a cycle\<close>

text \<open>A property that every iteration keeps holds after the loop.\<close>

lemma forEach_invariant:
  assumes "\<And>x s s'. P s \<Longrightarrow> body x s = Inr s' \<Longrightarrow> P s'"
    and "P s" and "forEach xs body s = Inr s'"
  shows "P s'"
  using assms(2,3)
proof (induction xs arbitrary: s)
  case Nil
  then show ?case by simp
next
  case (Cons x xs)
  from Cons.prems(2) obtain s1 where s1: "body x s = Inr s1" and rest: "forEach xs body s1 = Inr s'"
    by (auto split: sum.splits)
  from assms(1) [OF Cons.prems(1) s1] have "P s1" .
  then show ?case using rest by (rule Cons.IH)
qed

text \<open>A loop whose iterations never throw does not throw.\<close>

lemma forEach_total:
  assumes "\<And>x s. x \<in> set xs \<Longrightarrow> \<exists>s'. body x s = Inr s'"
  shows "\<exists>s'. forEach xs body s = Inr s'"
  using assms
proof (induction xs arbitrary: s)
  case Nil
  then show ?case by simp
next
  case (Cons x xs)
  from Cons.prems [of x s] obtain s1 where s1: "body x s = Inr s1" by auto
  have "\<exists>s'. forEach xs body s1 = Inr s'"
    by (rule Cons.IH) (simp add: Cons.prems)
  with s1 show ?case by simp
qed

subsection \<open>Rows appended\<close>

text \<open>
  Each append puts one line behind what the file held, or behind the header line, and
  the file exists afterwards.
\<close>

lemma opened_appendCsvRow:
  "opened (appendCsvRow file CSV_HEADERS r) = opened file @ [csvLine CSV_HEADERS r]"
  by (cases "file") (simp_all add: opened_def appendCsvRow_def appendFileSync_def)

lemma appendCsvRow_exists: "appendCsvRow file hs r \<noteq> None"
  by (cases "file") (simp_all add: appendCsvRow_def appendFileSync_def)

lemma recordOutcome_grows:
  assumes "recordOutcome env cfg gasPriceWei b sz sizeIn r (w, batch) = Inr (w', batch')"
  shows "\<exists>line. opened (csv w') = opened (csv w) @ [line] \<and> csv w' \<noteq> None"
  using assms
  using appendCsvRow_exists [of "csv w" CSV_HEADERS]
  by (auto simp: recordOutcome_def opened_appendCsvRow split: outcome.splits sum.splits)

lemma crossBlock_grows:
  assumes "crossBlock env cfg ctx gasPriceWei sz sizeIn dir st = Inr st'"
  shows "\<exists>line. opened (csv (fst st')) = opened (csv (fst st)) @ [line] \<and> csv (fst st') \<noteq> None"
proof -
  obtain r log where e: "evalCrossVersion env cfg ctx dir sizeIn (calls (fst st)) = (r, log)"
    by (cases "evalCrossVersion env cfg ctx dir sizeIn (calls (fst st))")
  with assms have
    "recordOutcome env cfg gasPriceWei CrossVersion sz sizeIn r ((fst st)\<lparr>calls := log\<rparr>, snd st) =
       Inr (fst st', snd st')"
    by (simp add: crossBlock_def)
  from recordOutcome_grows [OF this] show ?thesis by simp
qed

lemma triangleBlock_grows:
  assumes "triangleBlock env cfg ctx gasPriceWei sz sizeIn st = Inr st'"
  shows "\<exists>line. opened (csv (fst st')) = opened (csv (fst st)) @ [line] \<and> csv (fst st') \<noteq> None"
proof -
  obtain r log where e: "evalTriangleV2 env ctx sizeIn (calls (fst st)) = (r, log)"
    by (cases "evalTriangleV2 env ctx sizeIn (calls (fst st))")
  with assms have
    "recordOutcome env cfg gasPriceWei TriangleV2 sz sizeIn r ((fst st)\<lparr>calls := log\<rparr>, snd st) =
       Inr (fst st', snd st')"
    by (simp add: triangleBlock_def)
  from recordOutcome_grows [OF this] show ?thesis by simp
qed

lemma wombatBlock_grows:
  assumes "wombatBlock env cfg ctx gasPriceWei sz sizeIn variant st = Inr st'"
  shows "\<exists>line. opened (csv (fst st')) = opened (csv (fst st)) @ [line] \<and> csv (fst st') \<noteq> None"
proof -
  obtain r log where e: "evalTriangleWombat env ctx variant sizeIn (calls (fst st)) = (r, log)"
    by (cases "evalTriangleWombat env ctx variant sizeIn (calls (fst st))")
  with assms have
    "recordOutcome env cfg gasPriceWei TriangleWombat sz sizeIn r ((fst st)\<lparr>calls := log\<rparr>, snd st) =
       Inr (fst st', snd st')"
    by (simp add: wombatBlock_def)
  from recordOutcome_grows [OF this] show ?thesis by simp
qed

text \<open>The body for one size appends five rows: two, one and two.\<close>

lemma sizeBody_grows:
  assumes "sizeBody env cfg ctx gasPriceWei sz st = Inr st'"
  shows "\<exists>rows. length rows = 5 \<and> opened (csv (fst st')) = opened (csv (fst st)) @ rows \<and>
                csv (fst st') \<noteq> None"
proof -
  from assms obtain sizeIn s1 s2 s3 s4 where
    c1: "crossBlock env cfg ctx gasPriceWei sz sizeIn (js ''V2->V3'') st = Inr s1" and
    c2: "crossBlock env cfg ctx gasPriceWei sz sizeIn (js ''V3->V2'') s1 = Inr s2" and
    t: "triangleBlock env cfg ctx gasPriceWei sz sizeIn s2 = Inr s3" and
    w1: "wombatBlock env cfg ctx gasPriceWei sz sizeIn (js ''A'') s3 = Inr s4" and
    w2: "wombatBlock env cfg ctx gasPriceWei sz sizeIn (js ''B'') s4 = Inr st'"
    by (auto simp: sizeBody_def split: sum.splits)
  from crossBlock_grows [OF c1] obtain l1 where
    l1: "opened (csv (fst s1)) = opened (csv (fst st)) @ [l1]" by blast
  from crossBlock_grows [OF c2] obtain l2 where
    l2: "opened (csv (fst s2)) = opened (csv (fst s1)) @ [l2]" by blast
  from triangleBlock_grows [OF t] obtain l3 where
    l3: "opened (csv (fst s3)) = opened (csv (fst s2)) @ [l3]" by blast
  from wombatBlock_grows [OF w1] obtain l4 where
    l4: "opened (csv (fst s4)) = opened (csv (fst s3)) @ [l4]" by blast
  from wombatBlock_grows [OF w2] obtain l5 where
    l5: "opened (csv (fst st')) = opened (csv (fst s4)) @ [l5]" and ex: "csv (fst st') \<noteq> None" by blast
  have "opened (csv (fst st')) = opened (csv (fst st)) @ [l1, l2, l3, l4, l5]"
    by (simp add: l1 l2 l3 l4 l5)
  with ex show ?thesis by (intro exI [of _ "[l1, l2, l3, l4, l5]"]) simp
qed

lemma sizes_grow:
  assumes "forEach szs (sizeBody env cfg ctx gasPriceWei) st = Inr st'"
  shows "\<exists>rows. length rows = 5 * length szs \<and> opened (csv (fst st')) = opened (csv (fst st)) @ rows \<and>
                (szs \<noteq> [] \<longrightarrow> csv (fst st') \<noteq> None)"
  using assms
proof (induction szs arbitrary: st)
  case Nil
  then show ?case by simp
next
  case (Cons sz szs)
  from Cons.prems obtain s1 where
    b: "sizeBody env cfg ctx gasPriceWei sz st = Inr s1" and
    rest: "forEach szs (sizeBody env cfg ctx gasPriceWei) s1 = Inr st'"
    by (auto split: sum.splits)
  from sizeBody_grows [OF b] obtain r1 where
    r1: "length r1 = 5" "opened (csv (fst s1)) = opened (csv (fst st)) @ r1" "csv (fst s1) \<noteq> None"
    by blast
  from Cons.IH [OF rest] obtain r2 where
    r2: "length r2 = 5 * length szs" "opened (csv (fst st')) = opened (csv (fst s1)) @ r2"
      "szs \<noteq> [] \<longrightarrow> csv (fst st') \<noteq> None"
    by blast
  have "csv (fst st') \<noteq> None"
  proof (cases szs)
    case Nil
    with rest r1(3) show ?thesis by simp
  next
    case Cons
    with r2(3) show ?thesis by simp
  qed
  moreover have "length (r1 @ r2) = 5 * length (sz # szs)" using r1(1) r2(1) by simp
  moreover have "opened (csv (fst st')) = opened (csv (fst st)) @ (r1 @ r2)" using r1(2) r2(2) by simp
  ultimately show ?case by blast
qed

lemma sizesOf_nonempty: "sizesOf cfg \<noteq> []"
  by (simp add: sizesOf_def)

subsection \<open>When a cycle completes\<close>

lemma recordOutcome_total:
  assumes "\<And>rt. \<exists>u. estimateGasUnitsForRoute rt cfg = Fin u"
  shows "\<exists>st'. recordOutcome env cfg gasPriceWei b sz sizeIn r st = Inr st'"
proof (cases r)
  case (Success rt lg i out)
  from assms [of rt] obtain u where "estimateGasUnitsForRoute rt cfg = Fin u" by blast
  with Success show ?thesis
    by (cases st) (simp add: recordOutcome_def score_def gasCostInWBNB_def toBigInt_def Let_def)
next
  case (Failure err rt)
  then show ?thesis by (cases st) (simp add: recordOutcome_def)
qed

lemma sizeBody_total:
  assumes gas: "\<And>rt. \<exists>u. estimateGasUnitsForRoute rt cfg = Fin u"
    and parse: "\<exists>v. parseUnits env sz (dec (WBNB ctx)) = Inr v"
  shows "\<exists>st'. sizeBody env cfg ctx gasPriceWei sz st = Inr st'"
proof -
  from parse obtain sizeIn where p: "parseUnits env sz (dec (WBNB ctx)) = Inr sizeIn" by blast
  have cross: "\<exists>s'. crossBlock env cfg ctx gasPriceWei sz sizeIn dir s = Inr s'" for dir s
    unfolding crossBlock_def
    using recordOutcome_total [OF gas]
    by (cases "evalCrossVersion env cfg ctx dir sizeIn (calls (fst s))") simp
  have tri: "\<exists>s'. triangleBlock env cfg ctx gasPriceWei sz sizeIn s = Inr s'" for s
    unfolding triangleBlock_def
    using recordOutcome_total [OF gas]
    by (cases "evalTriangleV2 env ctx sizeIn (calls (fst s))") simp
  have wom: "\<exists>s'. wombatBlock env cfg ctx gasPriceWei sz sizeIn variant s = Inr s'" for variant s
    unfolding wombatBlock_def
    using recordOutcome_total [OF gas]
    by (cases "evalTriangleWombat env ctx variant sizeIn (calls (fst s))") simp
  from forEach_total [of "[js ''V2->V3'', js ''V3->V2'']" "crossBlock env cfg ctx gasPriceWei sz sizeIn" st]
  obtain s1 where
    s1: "forEach [js ''V2->V3'', js ''V3->V2''] (crossBlock env cfg ctx gasPriceWei sz sizeIn) st = Inr s1"
    using cross by blast
  from tri obtain s2 where s2: "triangleBlock env cfg ctx gasPriceWei sz sizeIn s1 = Inr s2" by blast
  from forEach_total [of "[js ''A'', js ''B'']" "wombatBlock env cfg ctx gasPriceWei sz sizeIn" s2]
  obtain s3 where
    s3: "forEach [js ''A'', js ''B''] (wombatBlock env cfg ctx gasPriceWei sz sizeIn) s2 = Inr s3"
    using wom by blast
  from p s1 s2 s3 show ?thesis by (simp add: sizeBody_def)
qed

lemma cycle_total:
  assumes gas: "\<And>rt. \<exists>u. estimateGasUnitsForRoute rt cfg = Fin u"
    and parse: "\<And>sz. sz \<in> set (sizesOf cfg) \<Longrightarrow> \<exists>v. parseUnits env sz (dec (WBNB ctx)) = Inr v"
  shows "\<exists>w' batch rep. cycle env cfg ctx gasPriceWei w = Inr (w', batch, rep)"
proof -
  have "\<exists>s'. forEach (sizesOf cfg) (sizeBody env cfg ctx gasPriceWei) (w, []) = Inr s'"
    by (rule forEach_total) (rule sizeBody_total [OF gas parse])
  then obtain w' batch where
    "forEach (sizesOf cfg) (sizeBody env cfg ctx gasPriceWei) (w, []) = Inr (w', batch)"
    by (metis surj_pair)
  then show ?thesis by (simp add: cycle_def)
qed

subsection \<open>The batch\<close>

text \<open>Whatever holds of every result of \<open>score\<close> holds of every entry of the batch.\<close>

lemma recordOutcome_batch:
  assumes q: "\<And>sz sizeIn rt lg i out s. score cfg gasPriceWei sz sizeIn rt lg i out = Inr s \<Longrightarrow> Q s"
    and p: "\<forall>s \<in> set (snd st). Q s"
    and r: "recordOutcome env cfg gasPriceWei b sz sizeIn r st = Inr st'"
  shows "\<forall>s \<in> set (snd st'). Q s"
proof (cases r)
  case (Success rt lg i out)
  with r obtain s where s: "score cfg gasPriceWei sz sizeIn rt lg i out = Inr s"
    and b: "snd st' = snd st @ [s]"
    by (cases st) (auto simp: recordOutcome_def split: sum.splits)
  from q [OF s] p b show ?thesis by simp
next
  case (Failure err rt)
  with r have "snd st' = snd st" by (cases st) (auto simp: recordOutcome_def)
  with p show ?thesis by simp
qed

lemma sizeBody_batch:
  assumes q: "\<And>sz sizeIn rt lg i out s. score cfg gasPriceWei sz sizeIn rt lg i out = Inr s \<Longrightarrow> Q s"
    and p: "\<forall>s \<in> set (snd st). Q s"
    and r: "sizeBody env cfg ctx gasPriceWei sz st = Inr st'"
  shows "\<forall>s \<in> set (snd st'). Q s"
proof -
  from r obtain sizeIn s1 s2 s3 s4 where
    c1: "crossBlock env cfg ctx gasPriceWei sz sizeIn (js ''V2->V3'') st = Inr s1" and
    c2: "crossBlock env cfg ctx gasPriceWei sz sizeIn (js ''V3->V2'') s1 = Inr s2" and
    t: "triangleBlock env cfg ctx gasPriceWei sz sizeIn s2 = Inr s3" and
    w1: "wombatBlock env cfg ctx gasPriceWei sz sizeIn (js ''A'') s3 = Inr s4" and
    w2: "wombatBlock env cfg ctx gasPriceWei sz sizeIn (js ''B'') s4 = Inr st'"
    by (auto simp: sizeBody_def split: sum.splits)
  note keep = recordOutcome_batch [where Q = Q and cfg = cfg and gasPriceWei = gasPriceWei, OF q]
  have cross: "\<forall>s \<in> set (snd b'). Q s"
    if "\<forall>s \<in> set (snd b). Q s" "crossBlock env cfg ctx gasPriceWei sz sizeIn dir b = Inr b'" for dir b b'
    using that keep [where st = "((fst b)\<lparr>calls := log\<rparr>, snd b)" and st' = b' for log]
    by (auto simp: crossBlock_def split: prod.splits)
  have tri: "\<forall>s \<in> set (snd b'). Q s"
    if "\<forall>s \<in> set (snd b). Q s" "triangleBlock env cfg ctx gasPriceWei sz sizeIn b = Inr b'" for b b'
    using that keep [where st = "((fst b)\<lparr>calls := log\<rparr>, snd b)" and st' = b' for log]
    by (auto simp: triangleBlock_def split: prod.splits)
  have wom: "\<forall>s \<in> set (snd b'). Q s"
    if "\<forall>s \<in> set (snd b). Q s" "wombatBlock env cfg ctx gasPriceWei sz sizeIn v b = Inr b'" for v b b'
    using that keep [where st = "((fst b)\<lparr>calls := log\<rparr>, snd b)" and st' = b' for log]
    by (auto simp: wombatBlock_def split: prod.splits)
  from wom [OF wom [OF tri [OF cross [OF cross [OF p c1] c2] t] w1] w2] show ?thesis .
qed

lemma cycle_batch:
  assumes q: "\<And>sz sizeIn rt lg i out s. score cfg gasPriceWei sz sizeIn rt lg i out = Inr s \<Longrightarrow> Q s"
    and r: "cycle env cfg ctx gasPriceWei w = Inr (w', batch, rep)"
  shows "\<forall>s \<in> set batch. Q s"
proof -
  from r have f: "forEach (sizesOf cfg) (sizeBody env cfg ctx gasPriceWei) (w, []) = Inr (w', batch)"
    by (auto simp: cycle_def split: sum.splits)
  have "\<forall>s \<in> set (snd (w', batch)). Q s"
    by (rule forEach_invariant [where P = "\<lambda>b. \<forall>s \<in> set (snd b). Q s", OF sizeBody_batch [OF q] _ f])
      simp_all
  then show ?thesis by simp
qed

section \<open>Two cycles on the example chain\<close>

lemma exampleEnv_nowIso: "nowIso (exampleEnv n) w = js ''2024-01-01T00:00:00.000Z''"
  by (simp add: exampleEnv_def)

lemma exampleEnv_parseUnits:
  "parseUnits (exampleEnv n) (js ''0.000000000000001'') (dec (WBNB exampleTokens)) = Inr 1000"
  by (simp add: exampleEnv_def exampleTokens_def)

lemma example_tokens:
  "addr (WBNB exampleTokens) = js ''0xbb4C''" "addr (USDT exampleTokens) = js ''0x5539''"
  "addr (USDC exampleTokens) = js ''0x8AC7''" "addr (BUSD exampleTokens) = js ''0xe9e7''"
  by (simp_all add: exampleTokens_def)

lemma example_fees:
  "v3FeeTiers exampleConfig (js ''USDT/WBNB'') = Some 2500"
  "v3FeeTiers exampleConfig (js ''WBNB/USDT'') = Some 2500"
  by (simp_all add: exampleConfig_def js_eq_iff)

lemma exampleConfig_gas: "\<exists>u. estimateGasUnitsForRoute rt exampleConfig = Fin u"
  by (simp add: estimateGasUnitsForRoute_def exampleConfig_def num_mul_def toNumber_exact Let_def)

lemma exampleConfig_sizes: "sizesOf exampleConfig = [js ''0.000000000000001'']"
  by (simp add: sizesOf_def exampleConfig_def)

lemma exampleEnv_parse:
  "sz \<in> set (sizesOf exampleConfig) \<Longrightarrow> \<exists>v. parseUnits (exampleEnv n) sz (dec (WBNB exampleTokens)) = Inr v"
  by (simp add: exampleConfig_sizes exampleEnv_def exampleTokens_def)

lemma route_types_differ:
  "V2toV3 \<noteq> V3toV2" "V2toV3 \<noteq> js ''TRI''" "V3toV2 \<noteq> js ''TRI''"
  "V2toV3 \<noteq> js ''TRI_WOMBAT_A''" "V3toV2 \<noteq> js ''TRI_WOMBAT_A''"
  "V2toV3 \<noteq> js ''TRI_WOMBAT_B''" "V3toV2 \<noteq> js ''TRI_WOMBAT_B''"
  by (simp_all add: V2toV3_def V3toV2_def js_def)

lemma example_gas_units:
  "estimateGasUnitsForRoute V2toV3 exampleConfig = Fin 5"
  "estimateGasUnitsForRoute V3toV2 exampleConfig = Fin 5"
  "estimateGasUnitsForRoute (js ''TRI'') exampleConfig = Fin 6"
  "estimateGasUnitsForRoute (js ''TRI_WOMBAT_A'') exampleConfig = Fin 8"
  "estimateGasUnitsForRoute (js ''TRI_WOMBAT_B'') exampleConfig = Fin 8"
  by (simp_all add: estimateGasUnitsForRoute_def exampleConfig_def num_mul_def toNumber_exact
      route_types_differ [symmetric] js_eq_iff Let_def)

lemma example_flash_fee: "flashloanFeeInWBNB 1000 exampleConfig = 1"
  by (simp add: flashloanFeeInWBNB_def exampleConfig_def bigint_div_def)

lemma example_bps:
  "safePctBps 40 1000 = Fin 400" "safePctBps 50 1000 = Fin 500" "safePctBps 99 1000 = Fin 990"
  by (simp_all add: safePctBps_def bigint_div_def toNumber_exact)

lemma example_scores:
  "score exampleConfig 1 (js ''0.000000000000001'') 1000 V2toV3 (js ''V2->V3:WBNB->USDT->WBNB'') 1000 1040
     = Inr entryV2V3"
  "score exampleConfig 1 (js ''0.000000000000001'') 1000 V3toV2 (js ''V3->V2:WBNB->USDT->WBNB'') 1000 1040
     = Inr entryV3V2"
  "score exampleConfig 1 (js ''0.000000000000001'') 1000 (js ''TRI'') (js ''TRI_V2:WBNB->USDT->BUSD->WBNB'')
     1000 1050 = Inr entryTRI"
  "score exampleConfig 1 (js ''0.000000000000001'') 1000 (js ''TRI_WOMBAT_A'')
     (js ''TRI_WOMBAT_A:WBNB->USDT (V2)->USDC (Wombat)->WBNB (V2)'') 1000 1099 = Inr entryWombatA"
  "score exampleConfig 1 (js ''0.000000000000001'') 1000 (js ''TRI_WOMBAT_B'')
     (js ''TRI_WOMBAT_B:WBNB->USDC (V2)->USDT (Wombat)->WBNB (V2)'') 1000 1099 = Inr entryWombatB"
  by (simp_all add: score_def example_gas_units example_flash_fee example_bps gasCostInWBNB_def
      toBigInt_def entryV2V3_def entryV3V2_def entryTRI_def entryWombatA_def entryWombatB_def Let_def)

lemma example_legs:
  "js ''V2->V3'' @ js '':'' @ symWBNB @ js ''->'' @ symUSDT @ js ''->'' @ symWBNB = js ''V2->V3:WBNB->USDT->WBNB''"
  "js ''V3->V2'' @ js '':'' @ symWBNB @ js ''->'' @ symUSDT @ js ''->'' @ symWBNB = js ''V3->V2:WBNB->USDT->WBNB''"
  "js ''TRI_V2:'' @ symWBNB @ js ''->'' @ symUSDT @ js ''->'' @ symBUSD @ js ''->'' @ symWBNB =
     js ''TRI_V2:WBNB->USDT->BUSD->WBNB''"
  "js ''TRI_WOMBAT_A:'' @ symWBNB @ js ''->'' @ symUSDT @ js '' (V2)->'' @ symUSDC @ js '' (Wombat)->'' @
     symWBNB @ js '' (V2)'' = js ''TRI_WOMBAT_A:WBNB->USDT (V2)->USDC (Wombat)->WBNB (V2)''"
  "js ''TRI_WOMBAT_B:'' @ symWBNB @ js ''->'' @ symUSDC @ js '' (V2)->'' @ symUSDT @ js '' (Wombat)->'' @
     symWBNB @ js '' (V2)'' = js ''TRI_WOMBAT_B:WBNB->USDC (V2)->USDT (Wombat)->WBNB (V2)''"
  by (simp_all add: symWBNB_def symUSDT_def symUSDC_def symBUSD_def js_def)

lemma example_ranked:
  "ranked [entryV2V3, entryV3V2, entryTRI, entryWombatA, entryWombatB] =
     [entryWombatA, entryWombatB, entryTRI, entryV2V3, entryV3V2]"
  by (simp add: ranked_def hasBigIntPnl_def byPnl_def entryV2V3_def entryV3V2_def entryTRI_def
      entryWombatA_def entryWombatB_def)

text \<open>Every call reverts: five failure rows, an empty batch, nothing to report.\<close>

lemma example_cycle_all_fail:
  "cycle (exampleEnv 0) exampleConfig exampleTokens 1 freshWorld =
     Inr (\<lparr>calls =
             [GetAmountsOut 1000 [js ''0xbb4C'', js ''0x5539''],
              QuoteExactInputSingle (js ''0xbb4C'') (js ''0x5539'') (Some 2500) 1000,
              QuoteExactInput (js ''0xbb4C'') (Some 2500) (js ''0x5539'') 1000,
              GetAmountsOut 1000 [js ''0xbb4C'', js ''0x5539'', js ''0xe9e7'', js ''0xbb4C''],
              GetAmountsOut 1000 [js ''0xbb4C'', js ''0x5539''],
              GetAmountsOut 1000 [js ''0xbb4C'', js ''0x8AC7'']],
           csv = Some (headerLine CSV_HEADERS # map (csvLine CSV_HEADERS)
             [failureRow (js ''2024-01-01T00:00:00.000Z'') V2toV3 (js ''0.000000000000001'') CrossVersion
                (js ''V2 quote failed: no liquidity''),
              failureRow (js ''2024-01-01T00:00:00.000Z'') V3toV2 (js ''0.000000000000001'') CrossVersion
                (js ''V3 quote failed: request timeout (fallback after: no liquidity)''),
              failureRow (js ''2024-01-01T00:00:00.000Z'') (js ''TRI'') (js ''0.000000000000001'') TriangleV2
                (js ''V2 quote failed: no liquidity''),
              failureRow (js ''2024-01-01T00:00:00.000Z'') (js ''TRI_WOMBAT_A'') (js ''0.000000000000001'')
                TriangleWombat (js ''V2 quote failed: no liquidity''),
              failureRow (js ''2024-01-01T00:00:00.000Z'') (js ''TRI_WOMBAT_B'') (js ''0.000000000000001'')
                TriangleWombat (js ''V2 quote failed: no liquidity'')])\<rparr>,
          [], NoSuccessfulQuotes)"
  by (simp add: cycle_def exampleConfig_sizes sizeBody_def exampleEnv_parseUnits crossBlock_def
      triangleBlock_def wombatBlock_def evalCrossVersion_def evalTriangleV2_def evalTriangleWombat_def
      exampleEnv_quoteV2 exampleEnv_quoteV3Single exampleEnv_quoteWombat recordOutcome_def
      exampleEnv_nowIso crossRouteType_def wombatRouteType_def js_eq_iff freshWorld_def
      appendCsvRow_def appendFileSync_def reportOf_def ranked_def example_tokens example_fees Let_def)

text \<open>Every call succeeds: five success rows, five entries, ranked by raw profit.\<close>

lemma example_cycle_all_succeed:
  "cycle (exampleEnv 20) exampleConfig exampleTokens 1 freshWorld =
     Inr (\<lparr>calls =
             [GetAmountsOut 1000 [js ''0xbb4C'', js ''0x5539''],
              QuoteExactInputSingle (js ''0x5539'') (js ''0xbb4C'') (Some 2500) 1050,
              QuoteExactInputSingle (js ''0xbb4C'') (js ''0x5539'') (Some 2500) 1000,
              GetAmountsOut 990 [js ''0x5539'', js ''0xbb4C''],
              GetAmountsOut 1000 [js ''0xbb4C'', js ''0x5539'', js ''0xe9e7'', js ''0xbb4C''],
              GetAmountsOut 1000 [js ''0xbb4C'', js ''0x5539''],
              QuotePotentialSwap (js ''0x5539'') (js ''0x8AC7'') 1050,
              GetAmountsOut 1049 [js ''0x8AC7'', js ''0xbb4C''],
              GetAmountsOut 1000 [js ''0xbb4C'', js ''0x8AC7''],
              QuotePotentialSwap (js ''0x8AC7'') (js ''0x5539'') 1050,
              GetAmountsOut 1049 [js ''0x5539'', js ''0xbb4C'']],
           csv = Some (headerLine CSV_HEADERS #
             map (\<lambda>s. csvLine CSV_HEADERS (successRow (exampleEnv 20) (js ''2024-01-01T00:00:00.000Z'') s))
               [entryV2V3, entryV3V2, entryTRI, entryWombatA, entryWombatB])\<rparr>,
          [entryV2V3, entryV3V2, entryTRI, entryWombatA, entryWombatB],
          Top10 [entryWombatA, entryWombatB, entryTRI, entryV2V3, entryV3V2])"
  by (simp add: cycle_def exampleConfig_sizes sizeBody_def exampleEnv_parseUnits crossBlock_def
      triangleBlock_def wombatBlock_def evalCrossVersion_def evalTriangleV2_def evalTriangleWombat_def
      exampleEnv_quoteV2 exampleEnv_quoteV3Single exampleEnv_quoteWombat recordOutcome_def
      exampleEnv_nowIso crossRouteType_def wombatRouteType_def js_eq_iff freshWorld_def
      appendCsvRow_def appendFileSync_def reportOf_def example_ranked example_tokens example_fees
      example_legs example_scores Let_def)

text \<open>
  No size configured, every call reverts: the four default sizes are probed, and the
  file holds the header line and twenty rows.
\<close>

lemma noSizesConfig_sizes:
  "sizesWBNB noSizesConfig = []"
  "sizesOf noSizesConfig = [js ''0.01'', js ''0.02'', js ''0.05'', js ''0.1'']"
  by (simp_all add: noSizesConfig_def sizesOf_def)

lemma noSizesConfig_fees:
  "v3FeeTiers noSizesConfig (js ''USDT/WBNB'') = Some 2500"
  "v3FeeTiers noSizesConfig (js ''WBNB/USDT'') = Some 2500"
  by (simp_all add: noSizesConfig_def example_fees)

lemma exampleEnv_parse_defaults:
  "parseUnits (exampleEnv n) (js ''0.01'') (dec (WBNB exampleTokens)) = Inr 10000000000000000"
  "parseUnits (exampleEnv n) (js ''0.02'') (dec (WBNB exampleTokens)) = Inr 20000000000000000"
  "parseUnits (exampleEnv n) (js ''0.05'') (dec (WBNB exampleTokens)) = Inr 50000000000000000"
  "parseUnits (exampleEnv n) (js ''0.1'') (dec (WBNB exampleTokens)) = Inr 100000000000000000"
  by (simp_all add: exampleEnv_def exampleTokens_def js_eq_iff)

lemma example_cycle_no_sizes:
  "cycle (exampleEnv 0) noSizesConfig exampleTokens 1 freshWorld =
     Inr (\<lparr>calls = failedCalls 10000000000000000 @ failedCalls 20000000000000000 @
                   failedCalls 50000000000000000 @ failedCalls 100000000000000000,
           csv = Some (headerLine CSV_HEADERS # map (csvLine CSV_HEADERS)
                   (failureRows (js ''0.01'') @ failureRows (js ''0.02'') @
                    failureRows (js ''0.05'') @ failureRows (js ''0.1'')))\<rparr>,
          [], NoSuccessfulQuotes)"
  by (simp add: cycle_def noSizesConfig_sizes sizeBody_def exampleEnv_parse_defaults crossBlock_def
      triangleBlock_def wombatBlock_def evalCrossVersion_def evalTriangleV2_def evalTriangleWombat_def
      exampleEnv_quoteV2 exampleEnv_quoteV3Single exampleEnv_quoteWombat recordOutcome_def
      exampleEnv_nowIso crossRouteType_def wombatRouteType_def js_eq_iff freshWorld_def
      appendCsvRow_def appendFileSync_def reportOf_def ranked_def example_tokens noSizesConfig_fees
      failedCalls_def failureRows_def Let_def)

section \<open>Profit and cost of a scored result\<close>

lemma score_fields:
  assumes "score cfg gasPriceWei sz sizeIn rt lg i out = Inr s"
  shows "inAmount s = i" "outAmount s = out" "pnl s = out - i"
    "netPnl s = pnl s - gasWBNB s - flashFee s"
    "flashFee s = flashloanFeeInWBNB sizeIn cfg"
    "gasCostInWBNB gasPriceWei (estimateGasUnitsForRoute rt cfg) = Inr (gasWBNB s)"
    "bps s = safePctBps (out - i) i"
  using assms by (auto simp: score_def Let_def split: sum.splits)

text \<open>
  C1: every scored result has raw profit \<open>out - in\<close> and net profit equal to raw profit
  minus gas cost minus flash-loan fee, as integers; the gas cost and the fee are the
  ones the cost model computes. In particular an input of 1000 with final output
  1040, gas cost 5 and flash fee 1 has raw profit 40 and net profit 34. The same holds
  of every entry of the batch of a cycle.
\<close>

theorem score_net_profit:
  "(\<forall>s. score cfg gasPriceWei sz sizeIn rt lg i out = Inr s \<longrightarrow>
      pnl s = out - i \<and> netPnl s = pnl s - gasWBNB s - flashFee s \<and>
      flashFee s = flashloanFeeInWBNB sizeIn cfg \<and>
      gasCostInWBNB gasPriceWei (estimateGasUnitsForRoute rt cfg) = Inr (gasWBNB s) \<and>
      (i = 1000 \<and> out = 1040 \<and> gasWBNB s = 5 \<and> flashFee s = 1 \<longrightarrow> pnl s = 40 \<and> netPnl s = 34)) \<and>
   (\<forall>w' batch rep. cycle env cfg ctx gasPriceWei w = Inr (w', batch, rep) \<longrightarrow>
      (\<forall>s \<in> set batch. pnl s = outAmount s - inAmount s \<and>
                        netPnl s = pnl s - gasWBNB s - flashFee s))"
proof (rule conjI)
  show "\<forall>s. score cfg gasPriceWei sz sizeIn rt lg i out = Inr s \<longrightarrow>
      pnl s = out - i \<and> netPnl s = pnl s - gasWBNB s - flashFee s \<and>
      flashFee s = flashloanFeeInWBNB sizeIn cfg \<and>
      gasCostInWBNB gasPriceWei (estimateGasUnitsForRoute rt cfg) = Inr (gasWBNB s) \<and>
      (i = 1000 \<and> out = 1040 \<and> gasWBNB s = 5 \<and> flashFee s = 1 \<longrightarrow> pnl s = 40 \<and> netPnl s = 34)"
  proof (intro allI impI)
    fix s
    assume s: "score cfg gasPriceWei sz sizeIn rt lg i out = Inr s"
    note f = score_fields [OF s]
    show "pnl s = out - i \<and> netPnl s = pnl s - gasWBNB s - flashFee s \<and>
      flashFee s = flashloanFeeInWBNB sizeIn cfg \<and>
      gasCostInWBNB gasPriceWei (estimateGasUnitsForRoute rt cfg) = Inr (gasWBNB s) \<and>
      (i = 1000 \<and> out = 1040 \<and> gasWBNB s = 5 \<and> flashFee s = 1 \<longrightarrow> pnl s = 40 \<and> netPnl s = 34)"
      using f(3,4,5,6) by simp
  qed
  show "\<forall>w' batch rep. cycle env cfg ctx gasPriceWei w = Inr (w', batch, rep) \<longrightarrow>
      (\<forall>s \<in> set batch. pnl s = outAmount s - inAmount s \<and>
                        netPnl s = pnl s - gasWBNB s - flashFee s)"
  proof (intro allI impI)
    fix w' batch rep
    assume c: "cycle env cfg ctx gasPriceWei w = Inr (w', batch, rep)"
    show "\<forall>s \<in> set batch. pnl s = outAmount s - inAmount s \<and> netPnl s = pnl s - gasWBNB s - flashFee s"
    proof (rule cycle_batch [OF _ c])
      fix sz sizeIn rt lg i out s
      assume "score cfg gasPriceWei sz sizeIn rt lg i out = Inr s"
      from score_fields [OF this]
      show "pnl s = outAmount s - inAmount s \<and> netPnl s = pnl s - gasWBNB s - flashFee s"
        by simp
    qed
  qed
qed

text \<open>
  The scenario on the example chain: the cross-version route returns 1040 for 1000 at
  a gas cost of 5 and a fee of 1, and every entry of the cycle's batch has its net
  profit from its raw profit, gas cost and fee.
\<close>

theorem score_net_profit_witness:
  "score exampleConfig 1 (js ''0.000000000000001'') 1000 V2toV3 (js ''V2->V3:WBNB->USDT->WBNB'') 1000 1040
     = Inr entryV2V3 \<and>
   gasWBNB entryV2V3 = 5 \<and> flashFee entryV2V3 = 1 \<and> pnl entryV2V3 = 40 \<and> netPnl entryV2V3 = 34 \<and>
   list_all (\<lambda>s. pnl s = outAmount s - inAmount s \<and> netPnl s = pnl s - gasWBNB s - flashFee s)
     [entryV2V3, entryV3V2, entryTRI, entryWombatA, entryWombatB] \<and>
   map netPnl [entryV2V3, entryV3V2, entryTRI, entryWombatA, entryWombatB] = [34, 34, 43, 90, 90]"
proof -
  note t = score_net_profit [where cfg = exampleConfig and gasPriceWei = 1
      and sz = "js ''0.000000000000001''" and sizeIn = 1000 and rt = V2toV3
      and lg = "js ''V2->V3:WBNB->USDT->WBNB''" and i = 1000 and out = 1040
      and env = "exampleEnv 20" and ctx = exampleTokens and w = freshWorld]
  have g: "gasWBNB entryV2V3 = 5" "flashFee entryV2V3 = 1"
    by (simp_all add: entryV2V3_def)
  from t example_scores(1) g have a: "pnl entryV2V3 = 40 \<and> netPnl entryV2V3 = 34"
    by blast
  from t example_cycle_all_succeed
  have "\<forall>s \<in> set [entryV2V3, entryV3V2, entryTRI, entryWombatA, entryWombatB].
          pnl s = outAmount s - inAmount s \<and> netPnl s = pnl s - gasWBNB s - flashFee s"
    by blast
  then have b: "list_all (\<lambda>s. pnl s = outAmount s - inAmount s \<and> netPnl s = pnl s - gasWBNB s - flashFee s)
     [entryV2V3, entryV3V2, entryTRI, entryWombatA, entryWombatB]"
    by (simp only: list_all_iff)
  have c: "map netPnl [entryV2V3, entryV3V2, entryTRI, entryWombatA, entryWombatB] = [34, 34, 43, 90, 90]"
    by (simp add: entryV2V3_def entryV3V2_def entryTRI_def entryWombatA_def entryWombatB_def)
  from example_scores(1) g a b c show ?thesis by (intro conjI) simp_all
qed

section \<open>Return in basis points\<close>

text \<open>
  C2, as amended: the basis-points return is 0 when the input is 0; otherwise it is
  \<open>Number(q)\<close> for \<open>q\<close> the quotient of \<open>rawProfit * 10000\<close> by the input under
  truncating division (its magnitude is the quotient of the magnitudes, its sign the
  product of the signs), which is \<open>q\<close> itself whenever \<open>q\<close> has magnitude at most
  \<open>2 ^ 53\<close>.
\<close>

theorem safePctBps_value:
  "safePctBps p 0 = Fin 0 \<and>
   (input \<noteq> 0 \<longrightarrow> safePctBps p input = toNumber (bigint_div (p * 10000) input)) \<and>
   (input \<noteq> 0 \<and> \<bar>bigint_div (p * 10000) input\<bar> \<le> 2 ^ 53 \<longrightarrow>
      safePctBps p input = Fin (bigint_div (p * 10000) input)) \<and>
   \<bar>bigint_div (p * 10000) input\<bar> = \<bar>p * 10000\<bar> div \<bar>input\<bar> \<and>
   (bigint_div (p * 10000) input \<noteq> 0 \<longrightarrow> sgn (bigint_div (p * 10000) input) = sgn p * sgn input)"
proof -
  have "sgn (p * 10000) = sgn p" by (simp add: sgn_mult)
  then show ?thesis
    using bigint_div_sgn [of "p * 10000" input]
    by (simp add: safePctBps_def toNumber_exact bigint_div_abs)
qed

theorem safePctBps_value_witness:
  "safePctBps 40 1000 = Fin 400 \<and> safePctBps (- 7) 20000 = Fin (- 3) \<and> safePctBps 40 0 = Fin 0"
proof -
  have a: "bigint_div (40 * 10000) 1000 = 400" "bigint_div (- 7 * 10000) 20000 = - 3"
    by (simp_all add: bigint_div_def)
  have "(1000::int) \<noteq> 0 \<and> \<bar>bigint_div (40 * 10000) 1000\<bar> \<le> 2 ^ 53"
    unfolding a by simp
  with safePctBps_value [of 40 1000]
  have "safePctBps 40 1000 = Fin (bigint_div (40 * 10000) 1000)" by blast
  moreover have "(20000::int) \<noteq> 0 \<and> \<bar>bigint_div (- 7 * 10000) 20000\<bar> \<le> 2 ^ 53"
    unfolding a by simp
  with safePctBps_value [of "- 7" 20000]
  have "safePctBps (- 7) 20000 = Fin (bigint_div (- 7 * 10000) 20000)" by blast
  moreover from safePctBps_value [of 40 1000] have "safePctBps 40 0 = Fin 0" by blast
  ultimately show ?thesis unfolding a by simp
qed

text \<open>
  The claim as stated fails from \<open>2 ^ 53 + 1\<close> on: a raw profit of 9007199254740993 on
  an input of 10000 has the quotient 9007199254740993, and \<open>safePctBps\<close> returns
  9007199254740992.
\<close>

theorem safePctBps_counterexample:
  "safePctBps 9007199254740993 10000 = Fin 9007199254740992 \<and>
   bigint_div (9007199254740993 * 10000) 10000 = 9007199254740993"
  by (simp add: safePctBps_def bigint_div_def toNumber_first_inexact)

section \<open>Route evaluation stops at the first failing leg\<close>

text \<open>
  C3: in every route evaluation, when the quote of leg \<open>k\<close> fails with message \<open>m\<close>,
  the evaluation returns the failed outcome carrying \<open>m\<close> and the route's type, and
  the call log is the one leg \<open>k\<close> left: nothing is attempted for leg \<open>k + 1\<close>. A
  leg only appends its own calls to the log: a constant-product or stable-swap leg one
  call, a concentrated-liquidity leg its primary call and, when that fails, its
  fallback (the last three conjuncts). The two cross-version directions
  have two legs, the single-DEX triangle has one, the two stable-hop variants three.
\<close>

theorem leg_failure_short_circuits:
  fixes env :: env and cfg :: config and ctx :: tokens
  shows
  "(\<forall>m log1. quoteV2 env [addr (WBNB ctx), addr (USDT ctx)] sizeIn log = (Inl m, log1) \<longrightarrow>
      evalCrossVersion env cfg ctx (js ''V2->V3'') sizeIn log = (Failure m V2toV3, log1)) \<and>
   (\<forall>m midOut log1 log2.
      quoteV2 env [addr (WBNB ctx), addr (USDT ctx)] sizeIn log = (Inr midOut, log1) \<and>
      quoteV3Single env (addr (USDT ctx)) (addr (WBNB ctx)) (v3FeeTiers cfg (js ''USDT/WBNB'')) midOut log1
        = (Inl m, log2) \<longrightarrow>
      evalCrossVersion env cfg ctx (js ''V2->V3'') sizeIn log = (Failure m V2toV3, log2)) \<and>
   (\<forall>m log1. dir \<noteq> js ''V2->V3'' \<and>
      quoteV3Single env (addr (WBNB ctx)) (addr (USDT ctx)) (v3FeeTiers cfg (js ''WBNB/USDT'')) sizeIn log
        = (Inl m, log1) \<longrightarrow>
      evalCrossVersion env cfg ctx dir sizeIn log = (Failure m V3toV2, log1)) \<and>
   (\<forall>m midOut log1 log2. dir \<noteq> js ''V2->V3'' \<and>
      quoteV3Single env (addr (WBNB ctx)) (addr (USDT ctx)) (v3FeeTiers cfg (js ''WBNB/USDT'')) sizeIn log
        = (Inr midOut, log1) \<and>
      quoteV2 env [addr (USDT ctx), addr (WBNB ctx)] midOut log1 = (Inl m, log2) \<longrightarrow>
      evalCrossVersion env cfg ctx dir sizeIn log = (Failure m V3toV2, log2)) \<and>
   (\<forall>m log1.
      quoteV2 env [addr (WBNB ctx), addr (USDT ctx), addr (BUSD ctx), addr (WBNB ctx)] sizeIn log
        = (Inl m, log1) \<longrightarrow>
      evalTriangleV2 env ctx sizeIn log = (Failure m (js ''TRI''), log1)) \<and>
   (\<forall>m log1. quoteV2 env [addr (WBNB ctx), addr (USDT ctx)] sizeIn log = (Inl m, log1) \<longrightarrow>
      evalTriangleWombat env ctx (js ''A'') sizeIn log = (Failure m (js ''TRI_WOMBAT_A''), log1)) \<and>
   (\<forall>m leg1Out log1 log2.
      quoteV2 env [addr (WBNB ctx), addr (USDT ctx)] sizeIn log = (Inr leg1Out, log1) \<and>
      quoteWombat env (addr (USDT ctx)) (addr (USDC ctx)) leg1Out log1 = (Inl m, log2) \<longrightarrow>
      evalTriangleWombat env ctx (js ''A'') sizeIn log = (Failure m (js ''TRI_WOMBAT_A''), log2)) \<and>
   (\<forall>m leg1Out leg2Out log1 log2 log3.
      quoteV2 env [addr (WBNB ctx), addr (USDT ctx)] sizeIn log = (Inr leg1Out, log1) \<and>
      quoteWombat env (addr (USDT ctx)) (addr (USDC ctx)) leg1Out log1 = (Inr leg2Out, log2) \<and>
      quoteV2 env [addr (USDC ctx), addr (WBNB ctx)] leg2Out log2 = (Inl m, log3) \<longrightarrow>
      evalTriangleWombat env ctx (js ''A'') sizeIn log = (Failure m (js ''TRI_WOMBAT_A''), log3)) \<and>
   (\<forall>m log1. variant \<noteq> js ''A'' \<and>
      quoteV2 env [addr (WBNB ctx), addr (USDC ctx)] sizeIn log = (Inl m, log1) \<longrightarrow>
      evalTriangleWombat env ctx variant sizeIn log = (Failure m (js ''TRI_WOMBAT_B''), log1)) \<and>
   (\<forall>m leg1Out log1 log2. variant \<noteq> js ''A'' \<and>
      quoteV2 env [addr (WBNB ctx), addr (USDC ctx)] sizeIn log = (Inr leg1Out, log1) \<and>
      quoteWombat env (addr (USDC ctx)) (addr (USDT ctx)) leg1Out log1 = (Inl m, log2) \<longrightarrow>
      evalTriangleWombat env ctx variant sizeIn log = (Failure m (js ''TRI_WOMBAT_B''), log2)) \<and>
   (\<forall>m leg1Out leg2Out log1 log2 log3. variant \<noteq> js ''A'' \<and>
      quoteV2 env [addr (WBNB ctx), addr (USDC ctx)] sizeIn log = (Inr leg1Out, log1) \<and>
      quoteWombat env (addr (USDC ctx)) (addr (USDT ctx)) leg1Out log1 = (Inr leg2Out, log2) \<and>
      quoteV2 env [addr (USDT ctx), addr (WBNB ctx)] leg2Out log2 = (Inl m, log3) \<longrightarrow>
      evalTriangleWombat env ctx variant sizeIn log = (Failure m (js ''TRI_WOMBAT_B''), log3)) \<and>
   snd (quoteV2 env path a log) = log @ [GetAmountsOut a path] \<and>
   snd (quoteWombat env tIn tOut a log) = log @ [QuotePotentialSwap tIn tOut a] \<and>
   snd (quoteV3Single env tIn tOut fee a log) =
     (case quoteExactInputSingle env log tIn tOut fee a of
        Inr out \<Rightarrow> log @ [QuoteExactInputSingle tIn tOut fee a]
      | Inl e \<Rightarrow> log @ [QuoteExactInputSingle tIn tOut fee a, QuoteExactInput tIn fee tOut a])"
proof (intro conjI allI impI)
  fix m log1
  assume "quoteV2 env [addr (WBNB ctx), addr (USDT ctx)] sizeIn log = (Inl m, log1)"
  then show "evalCrossVersion env cfg ctx (js ''V2->V3'') sizeIn log = (Failure m V2toV3, log1)"
    by (simp add: evalCrossVersion_def crossRouteType_def Let_def)
next
  fix m midOut log1 log2
  assume "quoteV2 env [addr (WBNB ctx), addr (USDT ctx)] sizeIn log = (Inr midOut, log1) \<and>
      quoteV3Single env (addr (USDT ctx)) (addr (WBNB ctx)) (v3FeeTiers cfg (js ''USDT/WBNB'')) midOut log1
        = (Inl m, log2)"
  then show "evalCrossVersion env cfg ctx (js ''V2->V3'') sizeIn log = (Failure m V2toV3, log2)"
    by (simp add: evalCrossVersion_def crossRouteType_def Let_def)
next
  fix m log1
  assume "dir \<noteq> js ''V2->V3'' \<and>
      quoteV3Single env (addr (WBNB ctx)) (addr (USDT ctx)) (v3FeeTiers cfg (js ''WBNB/USDT'')) sizeIn log
        = (Inl m, log1)"
  then show "evalCrossVersion env cfg ctx dir sizeIn log = (Failure m V3toV2, log1)"
    by (simp add: evalCrossVersion_def crossRouteType_def Let_def)
next
  fix m midOut log1 log2
  assume "dir \<noteq> js ''V2->V3'' \<and>
      quoteV3Single env (addr (WBNB ctx)) (addr (USDT ctx)) (v3FeeTiers cfg (js ''WBNB/USDT'')) sizeIn log
        = (Inr midOut, log1) \<and>
      quoteV2 env [addr (USDT ctx), addr (WBNB ctx)] midOut log1 = (Inl m, log2)"
  then show "evalCrossVersion env cfg ctx dir sizeIn log = (Failure m V3toV2, log2)"
    by (simp add: evalCrossVersion_def crossRouteType_def Let_def)
next
  fix m log1
  assume "quoteV2 env [addr (WBNB ctx), addr (USDT ctx), addr (BUSD ctx), addr (WBNB ctx)] sizeIn log
        = (Inl m, log1)"
  then show "evalTriangleV2 env ctx sizeIn log = (Failure m (js ''TRI''), log1)"
    by (simp add: evalTriangleV2_def Let_def)
next
  fix m log1
  assume "quoteV2 env [addr (WBNB ctx), addr (USDT ctx)] sizeIn log = (Inl m, log1)"
  then show "evalTriangleWombat env ctx (js ''A'') sizeIn log = (Failure m (js ''TRI_WOMBAT_A''), log1)"
    by (simp add: evalTriangleWombat_def wombatRouteType_def Let_def)
next
  fix m leg1Out log1 log2
  assume "quoteV2 env [addr (WBNB ctx), addr (USDT ctx)] sizeIn log = (Inr leg1Out, log1) \<and>
      quoteWombat env (addr (USDT ctx)) (addr (USDC ctx)) leg1Out log1 = (Inl m, log2)"
  then show "evalTriangleWombat env ctx (js ''A'') sizeIn log = (Failure m (js ''TRI_WOMBAT_A''), log2)"
    by (simp add: evalTriangleWombat_def wombatRouteType_def Let_def)
next
  fix m leg1Out leg2Out log1 log2 log3
  assume "quoteV2 env [addr (WBNB ctx), addr (USDT ctx)] sizeIn log = (Inr leg1Out, log1) \<and>
      quoteWombat env (addr (USDT ctx)) (addr (USDC ctx)) leg1Out log1 = (Inr leg2Out, log2) \<and>
      quoteV2 env [addr (USDC ctx), addr (WBNB ctx)] leg2Out log2 = (Inl m, log3)"
  then show "evalTriangleWombat env ctx (js ''A'') sizeIn log = (Failure m (js ''TRI_WOMBAT_A''), log3)"
    by (simp add: evalTriangleWombat_def wombatRouteType_def Let_def)
next
  fix m log1
  assume "variant \<noteq> js ''A'' \<and>
      quoteV2 env [addr (WBNB ctx), addr (USDC ctx)] sizeIn log = (Inl m, log1)"
  then show "evalTriangleWombat env ctx variant sizeIn log = (Failure m (js ''TRI_WOMBAT_B''), log1)"
    by (simp add: evalTriangleWombat_def wombatRouteType_def Let_def)
next
  fix m leg1Out log1 log2
  assume "variant \<noteq> js ''A'' \<and>
      quoteV2 env [addr (WBNB ctx), addr (USDC ctx)] sizeIn log = (Inr leg1Out, log1) \<and>
      quoteWombat env (addr (USDC ctx)) (addr (USDT ctx)) leg1Out log1 = (Inl m, log2)"
  then show "evalTriangleWombat env ctx variant sizeIn log = (Failure m (js ''TRI_WOMBAT_B''), log2)"
    by (simp add: evalTriangleWombat_def wombatRouteType_def Let_def)
next
  fix m leg1Out leg2Out log1 log2 log3
  assume "variant \<noteq> js ''A'' \<and>
      quoteV2 env [addr (WBNB ctx), addr (USDC ctx)] sizeIn log = (Inr leg1Out, log1) \<and>
      quoteWombat env (addr (USDC ctx)) (addr (USDT ctx)) leg1Out log1 = (Inr leg2Out, log2) \<and>
      quoteV2 env [addr (USDT ctx), addr (WBNB ctx)] leg2Out log2 = (Inl m, log3)"
  then show "evalTriangleWombat env ctx variant sizeIn log = (Failure m (js ''TRI_WOMBAT_B''), log3)"
    by (simp add: evalTriangleWombat_def wombatRouteType_def Let_def)
next
  show "snd (quoteV2 env path a log) = log @ [GetAmountsOut a path]"
    by (rule quoteV2_log)
next
  show "snd (quoteWombat env tIn tOut a log) = log @ [QuotePotentialSwap tIn tOut a]"
    by (rule quoteWombat_log)
next
  show "snd (quoteV3Single env tIn tOut fee a log) =
     (case quoteExactInputSingle env log tIn tOut fee a of
        Inr out \<Rightarrow> log @ [QuoteExactInputSingle tIn tOut fee a]
      | Inl e \<Rightarrow> log @ [QuoteExactInputSingle tIn tOut fee a, QuoteExactInput tIn fee tOut a])"
    by (rule quoteV3Single_log)
qed

theorem leg_failure_short_circuits_witness:
  "evalCrossVersion (exampleEnv 0) exampleConfig exampleTokens (js ''V2->V3'') 1000 [] =
     (Failure (js ''V2 quote failed: no liquidity'') V2toV3,
      [GetAmountsOut 1000 [js ''0xbb4C'', js ''0x5539'']]) \<and>
   evalCrossVersion (exampleEnv 1) exampleConfig exampleTokens (js ''V2->V3'') 1000 [] =
     (Failure (js ''V3 quote failed: request timeout (fallback after: no liquidity)'') V2toV3,
      [GetAmountsOut 1000 [js ''0xbb4C'', js ''0x5539''],
       QuoteExactInputSingle (js ''0x5539'') (js ''0xbb4C'') (Some 2500) 1050,
       QuoteExactInput (js ''0x5539'') (Some 2500) (js ''0xbb4C'') 1050]) \<and>
   evalCrossVersion (exampleEnv 0) exampleConfig exampleTokens (js ''V3->V2'') 1000 [] =
     (Failure (js ''V3 quote failed: request timeout (fallback after: no liquidity)'') V3toV2,
      [QuoteExactInputSingle (js ''0xbb4C'') (js ''0x5539'') (Some 2500) 1000,
       QuoteExactInput (js ''0xbb4C'') (Some 2500) (js ''0x5539'') 1000]) \<and>
   evalCrossVersion (exampleEnv 1) exampleConfig exampleTokens (js ''V3->V2'') 1000 [] =
     (Failure (js ''V2 quote failed: no liquidity'') V3toV2,
      [QuoteExactInputSingle (js ''0xbb4C'') (js ''0x5539'') (Some 2500) 1000,
       GetAmountsOut 990 [js ''0x5539'', js ''0xbb4C'']]) \<and>
   evalTriangleV2 (exampleEnv 0) exampleTokens 1000 [] =
     (Failure (js ''V2 quote failed: no liquidity'') (js ''TRI''),
      [GetAmountsOut 1000 [js ''0xbb4C'', js ''0x5539'', js ''0xe9e7'', js ''0xbb4C'']]) \<and>
   evalTriangleWombat (exampleEnv 0) exampleTokens (js ''A'') 1000 [] =
     (Failure (js ''V2 quote failed: no liquidity'') (js ''TRI_WOMBAT_A''),
      [GetAmountsOut 1000 [js ''0xbb4C'', js ''0x5539'']]) \<and>
   evalTriangleWombat (exampleEnv 1) exampleTokens (js ''A'') 1000 [] =
     (Failure (js ''Wombat quote failed: no liquidity'') (js ''TRI_WOMBAT_A''),
      [GetAmountsOut 1000 [js ''0xbb4C'', js ''0x5539''],
       QuotePotentialSwap (js ''0x5539'') (js ''0x8AC7'') 1050]) \<and>
   evalTriangleWombat (exampleEnv 2) exampleTokens (js ''A'') 1000 [] =
     (Failure (js ''V2 quote failed: no liquidity'') (js ''TRI_WOMBAT_A''),
      [GetAmountsOut 1000 [js ''0xbb4C'', js ''0x5539''],
       QuotePotentialSwap (js ''0x5539'') (js ''0x8AC7'') 1050,
       GetAmountsOut 1049 [js ''0x8AC7'', js ''0xbb4C'']]) \<and>
   evalTriangleWombat (exampleEnv 0) exampleTokens (js ''B'') 1000 [] =
     (Failure (js ''V2 quote failed: no liquidity'') (js ''TRI_WOMBAT_B''),
      [GetAmountsOut 1000 [js ''0xbb4C'', js ''0x8AC7'']]) \<and>
   evalTriangleWombat (exampleEnv 1) exampleTokens (js ''B'') 1000 [] =
     (Failure (js ''Wombat quote failed: no liquidity'') (js ''TRI_WOMBAT_B''),
      [GetAmountsOut 1000 [js ''0xbb4C'', js ''0x8AC7''],
       QuotePotentialSwap (js ''0x8AC7'') (js ''0x5539'') 1050]) \<and>
   evalTriangleWombat (exampleEnv 2) exampleTokens (js ''B'') 1000 [] =
     (Failure (js ''V2 quote failed: no liquidity'') (js ''TRI_WOMBAT_B''),
      [GetAmountsOut 1000 [js ''0xbb4C'', js ''0x8AC7''],
       QuotePotentialSwap (js ''0x8AC7'') (js ''0x5539'') 1050,
       GetAmountsOut 1049 [js ''0x5539'', js ''0xbb4C'']])"
proof -
  note ev = exampleEnv_quoteV2 exampleEnv_quoteV3Single exampleEnv_quoteWombat
    exampleTokens_def exampleConfig_def js_eq_iff
  note t0 = leg_failure_short_circuits [where env = "exampleEnv 0" and cfg = exampleConfig
      and ctx = exampleTokens and sizeIn = 1000 and log = "[]" and dir = "js ''V3->V2''"
      and variant = "js ''B''"]
  note t1 = leg_failure_short_circuits [where env = "exampleEnv 1" and cfg = exampleConfig
      and ctx = exampleTokens and sizeIn = 1000 and log = "[]" and dir = "js ''V3->V2''"
      and variant = "js ''B''"]
  note t2 = leg_failure_short_circuits [where env = "exampleEnv 2" and cfg = exampleConfig
      and ctx = exampleTokens and sizeIn = 1000 and log = "[]" and dir = "js ''V3->V2''"
      and variant = "js ''B''"]
  from t0 have
    "evalCrossVersion (exampleEnv 0) exampleConfig exampleTokens (js ''V2->V3'') 1000 [] =
       (Failure (js ''V2 quote failed: no liquidity'') V2toV3,
        [GetAmountsOut 1000 [js ''0xbb4C'', js ''0x5539'']])"
    "evalCrossVersion (exampleEnv 0) exampleConfig exampleTokens (js ''V3->V2'') 1000 [] =
       (Failure (js ''V3 quote failed: request timeout (fallback after: no liquidity)'') V3toV2,
        [QuoteExactInputSingle (js ''0xbb4C'') (js ''0x5539'') (Some 2500) 1000,
         QuoteExactInput (js ''0xbb4C'') (Some 2500) (js ''0x5539'') 1000])"
    "evalTriangleV2 (exampleEnv 0) exampleTokens 1000 [] =
       (Failure (js ''V2 quote failed: no liquidity'') (js ''TRI''),
        [GetAmountsOut 1000 [js ''0xbb4C'', js ''0x5539'', js ''0xe9e7'', js ''0xbb4C'']])"
    "evalTriangleWombat (exampleEnv 0) exampleTokens (js ''A'') 1000 [] =
       (Failure (js ''V2 quote failed: no liquidity'') (js ''TRI_WOMBAT_A''),
        [GetAmountsOut 1000 [js ''0xbb4C'', js ''0x5539'']])"
    "evalTriangleWombat (exampleEnv 0) exampleTokens (js ''B'') 1000 [] =
       (Failure (js ''V2 quote failed: no liquidity'') (js ''TRI_WOMBAT_B''),
        [GetAmountsOut 1000 [js ''0xbb4C'', js ''0x8AC7'']])"
    by (simp_all add: ev)
  moreover from t1 have
    "evalCrossVersion (exampleEnv 1) exampleConfig exampleTokens (js ''V2->V3'') 1000 [] =
       (Failure (js ''V3 quote failed: request timeout (fallback after: no liquidity)'') V2toV3,
        [GetAmountsOut 1000 [js ''0xbb4C'', js ''0x5539''],
         QuoteExactInputSingle (js ''0x5539'') (js ''0xbb4C'') (Some 2500) 1050,
         QuoteExactInput (js ''0x5539'') (Some 2500) (js ''0xbb4C'') 1050])"
    "evalCrossVersion (exampleEnv 1) exampleConfig exampleTokens (js ''V3->V2'') 1000 [] =
       (Failure (js ''V2 quote failed: no liquidity'') V3toV2,
        [QuoteExactInputSingle (js ''0xbb4C'') (js ''0x5539'') (Some 2500) 1000,
         GetAmountsOut 990 [js ''0x5539'', js ''0xbb4C'']])"
    "evalTriangleWombat (exampleEnv 1) exampleTokens (js ''A'') 1000 [] =
       (Failure (js ''Wombat quote failed: no liquidity'') (js ''TRI_WOMBAT_A''),
        [GetAmountsOut 1000 [js ''0xbb4C'', js ''0x5539''],
         QuotePotentialSwap (js ''0x5539'') (js ''0x8AC7'') 1050])"
    "evalTriangleWombat (exampleEnv 1) exampleTokens (js ''B'') 1000 [] =
       (Failure (js ''Wombat quote failed: no liquidity'') (js ''TRI_WOMBAT_B''),
        [GetAmountsOut 1000 [js ''0xbb4C'', js ''0x8AC7''],
         QuotePotentialSwap (js ''0x8AC7'') (js ''0x5539'') 1050])"
    by (simp_all add: ev)
  moreover from t2 have
    "evalTriangleWombat (exampleEnv 2) exampleTokens (js ''A'') 1000 [] =
       (Failure (js ''V2 quote failed: no liquidity'') (js ''TRI_WOMBAT_A''),
        [GetAmountsOut 1000 [js ''0xbb4C'', js ''0x5539''],
         QuotePotentialSwap (js ''0x5539'') (js ''0x8AC7'') 1050,
         GetAmountsOut 1049 [js ''0x8AC7'', js ''0xbb4C'']])"
    "evalTriangleWombat (exampleEnv 2) exampleTokens (js ''B'') 1000 [] =
       (Failure (js ''V2 quote failed: no liquidity'') (js ''TRI_WOMBAT_B''),
        [GetAmountsOut 1000 [js ''0xbb4C'', js ''0x8AC7''],
         QuotePotentialSwap (js ''0x8AC7'') (js ''0x5539'') 1050,
         GetAmountsOut 1049 [js ''0x5539'', js ''0xbb4C'']])"
    by (simp_all add: ev)
  ultimately show ?thesis by (intro conjI)
qed

section \<open>The concentrated-liquidity adapter\<close>



section \<open>Ranking\<close>

lemma byPnl_le: "byPnl x y \<le> 0 \<longleftrightarrow> pnl y \<le> pnl x"
  by (simp add: byPnl_def)

lemma set_insertBy: "set (insertBy cmp x ys) = insert x (set ys)"
  by (induction ys) auto

lemma mset_insertBy: "mset (insertBy cmp x ys) = add_mset x (mset ys)"
  by (induction ys) simp_all

lemma mset_sortBy: "mset (sortBy cmp xs) = mset xs"
  by (induction xs) (simp_all add: mset_insertBy)

lemma length_sortBy: "length (sortBy cmp xs) = length xs"
  using mset_sortBy [of cmp xs] by (metis size_mset)

lemma descending_insertBy:
  "sorted_wrt (\<lambda>a b. pnl b \<le> pnl a) ys \<Longrightarrow> sorted_wrt (\<lambda>a b. pnl b \<le> pnl a) (insertBy byPnl x ys)"
proof (induction ys)
  case Nil
  then show ?case by simp
next
  case (Cons y ys)
  show ?case
  proof (cases "byPnl x y \<le> 0")
    case True
    then have "pnl y \<le> pnl x" by (simp add: byPnl_le)
    with Cons.prems True show ?thesis by fastforce
  next
    case False
    then have "pnl x \<le> pnl y" by (simp add: byPnl_le)
    with Cons False show ?thesis by (auto simp: set_insertBy)
  qed
qed

lemma descending_sortBy: "sorted_wrt (\<lambda>a b. pnl b \<le> pnl a) (sortBy byPnl xs)"
  by (induction xs) (simp_all add: descending_insertBy)

text \<open>An inserted entry passes larger profits only, so it stays in front of its equals.\<close>

lemma filter_insertBy:
  "filter (\<lambda>r. pnl r = k) (insertBy byPnl x ys) =
     (if pnl x = k then x # filter (\<lambda>r. pnl r = k) ys else filter (\<lambda>r. pnl r = k) ys)"
  by (induction ys) (auto simp: byPnl_le)

lemma stable_sortBy: "filter (\<lambda>r. pnl r = k) (sortBy byPnl xs) = filter (\<lambda>r. pnl r = k) xs"
  by (induction xs) (simp_all add: filter_insertBy)

text \<open>
  C6: the reported list is the first ten entries (all of them when there are fewer) of
  the batch sorted by raw profit in descending order; the sorted list holds the entries
  of the batch, and entries of equal raw profit keep the order they had in the batch.
  So the reported list is in descending order and never longer than ten.
\<close>

theorem ranked_top10:
  "ranked batch = take 10 (sortBy byPnl batch) \<and>
   mset (sortBy byPnl batch) = mset batch \<and>
   sorted_wrt (\<lambda>a b. pnl b \<le> pnl a) (sortBy byPnl batch) \<and>
   (\<forall>k. filter (\<lambda>r. pnl r = k) (sortBy byPnl batch) = filter (\<lambda>r. pnl r = k) batch) \<and>
   sorted_wrt (\<lambda>a b. pnl b \<le> pnl a) (ranked batch) \<and>
   length (ranked batch) = min 10 (length batch) \<and>
   length (ranked batch) \<le> 10"
proof -
  have r: "ranked batch = take 10 (sortBy byPnl batch)"
    by (simp add: ranked_def hasBigIntPnl_def)
  have "sorted_wrt (\<lambda>a b. pnl b \<le> pnl a) (take 10 (sortBy byPnl batch))"
    using descending_sortBy [of batch] by (rule sorted_wrt_take)
  with r show ?thesis
    by (simp add: mset_sortBy descending_sortBy stable_sortBy length_sortBy min.commute)
qed

text \<open>
  A batch of twelve entries is reported as ten; the five entries of the example cycle
  are reported with the two stable-hop triangles first, each pair of equal profits in
  batch order.
\<close>

theorem ranked_top10_witness:
  "length (ranked (replicate 12 entryTRI)) = 10 \<and>
   ranked [entryV2V3, entryV3V2, entryTRI, entryWombatA, entryWombatB] =
     [entryWombatA, entryWombatB, entryTRI, entryV2V3, entryV3V2]"
proof -
  from ranked_top10 [of "replicate 12 entryTRI"]
  have "length (ranked (replicate 12 entryTRI)) = min 10 (length (replicate 12 entryTRI))"
    by blast
  then have "length (ranked (replicate 12 entryTRI)) = 10" by simp
  with example_ranked show ?thesis by blast
qed

section \<open>Rows of failed attempts\<close>

lemma failureRow_cells:
  "map (cell (failureRow ts rt sz b err)) CSV_HEADERS =
     [ts, rt, sz, [], js ''0'', js ''0'', js ''0'', js ''0'', js ''0'', js ''0'', js ''0'', failureNote b err]"
  by (simp add: CSV_HEADERS_def failureRow_def cell_def js_eq_iff)

lemma recordOutcome_Failure:
  "recordOutcome env cfg gasPriceWei b sz sizeIn (Failure err rt) (w, batch) =
     Inr (w\<lparr>csv := appendCsvRow (csv w) CSV_HEADERS (failureRow (nowIso env w) rt sz b err)\<rparr>, batch)"
  by (simp add: recordOutcome_def)

lemma comma_free_replaceAll: "comma \<notin> set (replaceAll comma semicolon s)"
  by (auto simp: replaceAll_def comma_def semicolon_def)

lemma comma_free_errPrefix: "comma \<notin> set (errPrefix b)"
  by (cases b) (auto simp: js_def comma_def)

lemma length_errPrefix: "length (errPrefix b) \<le> 11"
  by (cases b) (simp_all add: length_js)

lemma comma_free_failureNote: "comma \<notin> set (failureNote b err)"
  using comma_free_replaceAll [of err] comma_free_errPrefix [of b]
  by (auto simp: failureNote_def slice0_def dest: in_set_takeD)

lemma count_list_append: "count_list (xs @ ys) c = count_list xs c + count_list ys c"
  by (induction xs) simp_all

lemma count_list_absent: "c \<notin> set xs \<Longrightarrow> count_list xs c = 0"
  by (induction xs) auto

text \<open>
  C7: the note of a failed attempt's row is the block's prefix followed by the first
  160 code units of the error message with every comma replaced by a semicolon. It is
  at most 171 code units long and holds no comma, so the line written has its eleven
  separators and whatever commas the timestamp, the route type and the size label
  bring: the note adds none.
\<close>

theorem failure_note_bounded_comma_free:
  "recordOutcome env cfg gasPriceWei b sz sizeIn (Failure err rt) (w, batch) =
     Inr (w\<lparr>csv := appendCsvRow (csv w) CSV_HEADERS (failureRow (nowIso env w) rt sz b err)\<rparr>, batch) \<and>
   cell (failureRow ts rt sz b err) (js ''note'') = failureNote b err \<and>
   failureNote b err = errPrefix b @ take 160 (map (\<lambda>c. if c = comma then semicolon else c) err) \<and>
   length (failureNote b err) \<le> 171 \<and>
   comma \<notin> set (failureNote b err) \<and>
   count_list (csvLine CSV_HEADERS (failureRow ts rt sz b err)) comma =
     11 + count_list ts comma + count_list rt comma + count_list sz comma"
proof -
  have "cell (failureRow ts rt sz b err) (js ''note'') = failureNote b err"
    by (simp add: failureRow_def cell_def js_eq_iff)
  moreover have "failureNote b err = errPrefix b @ take 160 (map (\<lambda>c. if c = comma then semicolon else c) err)"
    by (simp add: failureNote_def slice0_def replaceAll_def)
  moreover have "length (failureNote b err) \<le> 171"
    using length_errPrefix [of b] by (simp add: failureNote_def slice0_def)
  moreover have "count_list (failureNote b err) comma = 0"
    by (rule count_list_absent) (rule comma_free_failureNote)
  then have "count_list (csvLine CSV_HEADERS (failureRow ts rt sz b err)) comma =
     11 + count_list ts comma + count_list rt comma + count_list sz comma"
    unfolding csvLine_def failureRow_cells
    by (simp add: count_list_append js_def comma_def newline_def)
  ultimately show ?thesis
    using comma_free_failureNote [of b err] by (simp add: recordOutcome_Failure)
qed

text \<open>
  A message with commas, and one of 500 commas: the note of the first is the message
  with semicolons, the note of the second is the longest there is.
\<close>

theorem failure_note_bounded_comma_free_witness:
  "failureNote CrossVersion (js ''V2 quote failed: a,b,c'') = js ''ERR 1one:V2 quote failed: a;b;c'' \<and>
   failureNote TriangleWombat (replicate 500 comma) = js ''ERR 3three:'' @ replicate 160 semicolon \<and>
   length (failureNote TriangleWombat (replicate 500 comma)) = 171 \<and>
   comma \<notin> set (failureNote TriangleWombat (replicate 500 comma))"
proof -
  note t = failure_note_bounded_comma_free [where b = TriangleWombat and err = "replicate 500 comma"]
  have a: "failureNote CrossVersion (js ''V2 quote failed: a,b,c'') = js ''ERR 1one:V2 quote failed: a;b;c''"
    by (simp add: failureNote_def slice0_def replaceAll_def js_def comma_def semicolon_def)
  from t have "failureNote TriangleWombat (replicate 500 comma) =
      errPrefix TriangleWombat @ take 160 (map (\<lambda>c. if c = comma then semicolon else c) (replicate 500 comma))"
    by blast
  then have b: "failureNote TriangleWombat (replicate 500 comma) = js ''ERR 3three:'' @ replicate 160 semicolon"
    by simp
  then have c: "length (failureNote TriangleWombat (replicate 500 comma)) = 171"
    by (simp add: length_js)
  from t have "comma \<notin> set (failureNote TriangleWombat (replicate 500 comma))" by blast
  with a b c show ?thesis by blast
qed

text \<open>
  C10: the row of a failed attempt holds the timestamp, the route type and the size
  label, an empty legs field, the string \<open>0\<close> in each of the seven fields for input,
  output, raw profit, basis points, gas cost, flash fee and net profit, and the note,
  whatever the size and the amounts of the attempt were.
\<close>

theorem failure_row_fields:
  "recordOutcome env cfg gasPriceWei b sz sizeIn (Failure err rt) (w, batch) =
     Inr (w\<lparr>csv := appendCsvRow (csv w) CSV_HEADERS (failureRow (nowIso env w) rt sz b err)\<rparr>, batch) \<and>
   map (cell (failureRow ts rt sz b err)) CSV_HEADERS =
     [ts, rt, sz, [], js ''0'', js ''0'', js ''0'', js ''0'', js ''0'', js ''0'', js ''0'', failureNote b err] \<and>
   csvLine CSV_HEADERS (failureRow ts rt sz b err) =
     ts @ [comma] @ rt @ [comma] @ sz @ [comma] @ js '',0,0,0,0,0,0,0,'' @ failureNote b err @ [newline]"
  unfolding csvLine_def failureRow_cells
  by (simp add: recordOutcome_Failure js_def comma_def)

section \<open>The header row\<close>

lemma appendCsvRow_Some: "appendCsvRow (Some written) hs r = Some (written @ [csvLine hs r])"
  by (simp add: appendCsvRow_def appendFileSync_def)

lemma appendCsvRow_None: "appendCsvRow None hs r = Some [headerLine hs, csvLine hs r]"
  by (simp add: appendCsvRow_def appendFileSync_def)

lemma appendRows_Some: "appendRows (Some written) hs rs = Some (written @ map (csvLine hs) rs)"
  by (induction rs arbitrary: written) (simp_all add: appendCsvRow_Some)

text \<open>
  C9, as amended: when the file does not exist as the first row is appended, the header
  line is written once, in front of that row, and never again: the file then holds the
  header line followed by the rows. When the file exists, whatever it holds, the rows
  are appended to it and no header line is written.
\<close>

theorem header_written_once:
  "appendRows None hs (r # rs) = Some (headerLine hs # map (csvLine hs) (r # rs)) \<and>
   appendRows (Some written) hs rs = Some (written @ map (csvLine hs) rs)"
proof
  have "appendRows None hs (r # rs) = appendRows (Some [headerLine hs, csvLine hs r]) hs rs"
    by (simp add: appendCsvRow_None)
  also have "\<dots> = Some ([headerLine hs, csvLine hs r] @ map (csvLine hs) rs)"
    by (rule appendRows_Some)
  finally show "appendRows None hs (r # rs) = Some (headerLine hs # map (csvLine hs) (r # rs))"
    by simp
  show "appendRows (Some written) hs rs = Some (written @ map (csvLine hs) rs)"
    by (rule appendRows_Some)
qed

text \<open>
  A file that exists and is empty gets no header: the first row of a failed attempt is
  all it holds afterwards, where a file that did not exist holds the header and the row.
\<close>

theorem header_counterexample:
  "appendCsvRow (Some []) CSV_HEADERS
     (failureRow (js ''2024-01-01T00:00:00.000Z'') (js ''TRI'') (js ''0.01'') TriangleV2 (js ''boom'')) =
     Some [js ''2024-01-01T00:00:00.000Z,TRI,0.01,,0,0,0,0,0,0,0,ERR 2two:boom'' @ [newline]] \<and>
   appendCsvRow None CSV_HEADERS
     (failureRow (js ''2024-01-01T00:00:00.000Z'') (js ''TRI'') (js ''0.01'') TriangleV2 (js ''boom'')) =
     Some [js ''timestamp,routeType,size,legs,in,out,pnl,bps,gasCostWBNB,flashFeeWBNB,netPnl,note'' @ [newline],
           js ''2024-01-01T00:00:00.000Z,TRI,0.01,,0,0,0,0,0,0,0,ERR 2two:boom'' @ [newline]]"
proof -
  have "csvLine CSV_HEADERS
      (failureRow (js ''2024-01-01T00:00:00.000Z'') (js ''TRI'') (js ''0.01'') TriangleV2 (js ''boom'')) =
      js ''2024-01-01T00:00:00.000Z,TRI,0.01,,0,0,0,0,0,0,0,ERR 2two:boom'' @ [newline]"
    unfolding csvLine_def failureRow_cells
    by (simp add: failureNote_def slice0_def replaceAll_def js_def comma_def semicolon_def)
  moreover have "headerLine CSV_HEADERS =
      js ''timestamp,routeType,size,legs,in,out,pnl,bps,gasCostWBNB,flashFeeWBNB,netPnl,note'' @ [newline]"
    by (simp add: headerLine_def CSV_HEADERS_def js_def comma_def)
  ultimately show ?thesis by (simp add: appendCsvRow_Some appendCsvRow_None)
qed

section \<open>Rows of a cycle\<close>

text \<open>
  C5, as amended: a polling cycle that runs to its end appends exactly one row for each
  attempt, success or failure, and five rows for each trade size in effect (two
  cross-version directions, the triangle, two stable-hop variants), behind what the
  file held or behind the header line. The sizes in effect are the configured ones when
  the configured list is not empty, and the four default sizes when it is: then the
  cycle appends twenty rows. A cycle runs to its end whenever every size in effect
  parses and the gas estimates are finite.
\<close>

theorem cycle_row_count:
  "(\<forall>w' batch rep. cycle env cfg ctx gasPriceWei w = Inr (w', batch, rep) \<longrightarrow>
      (\<exists>rows. length rows = (if sizesWBNB cfg = [] then 20 else 5 * length (sizesWBNB cfg)) \<and>
              length rows = 5 * length (sizesOf cfg) \<and>
              csv w' = Some (opened (csv w) @ rows))) \<and>
   (\<forall>b sz sizeIn r w1 batch1 w2 batch2.
      recordOutcome env cfg gasPriceWei b sz sizeIn r (w1, batch1) = Inr (w2, batch2) \<longrightarrow>
      (\<exists>line. csv w2 = Some (opened (csv w1) @ [line]))) \<and>
   ((\<forall>rt. \<exists>u. estimateGasUnitsForRoute rt cfg = Fin u) \<and>
    (\<forall>sz \<in> set (sizesOf cfg). \<exists>v. parseUnits env sz (dec (WBNB ctx)) = Inr v) \<longrightarrow>
    (\<exists>w' batch rep. cycle env cfg ctx gasPriceWei w = Inr (w', batch, rep))) \<and>
   (sizesWBNB cfg \<noteq> [] \<longrightarrow> sizesOf cfg = sizesWBNB cfg) \<and>
   (sizesWBNB cfg = [] \<longrightarrow> sizesOf cfg = [js ''0.01'', js ''0.02'', js ''0.05'', js ''0.1''])"
proof (intro conjI allI impI)
  fix w' batch rep
  assume "cycle env cfg ctx gasPriceWei w = Inr (w', batch, rep)"
  then have "forEach (sizesOf cfg) (sizeBody env cfg ctx gasPriceWei) (w, []) = Inr (w', batch)"
    by (auto simp: cycle_def split: sum.splits)
  from sizes_grow [OF this] obtain rows where
    r: "length rows = 5 * length (sizesOf cfg)" "opened (csv w') = opened (csv w) @ rows" "csv w' \<noteq> None"
    using sizesOf_nonempty [of cfg] by auto
  from r(1) have "length rows = (if sizesWBNB cfg = [] then 20 else 5 * length (sizesWBNB cfg))"
    by (simp add: sizesOf_def)
  moreover from r(2,3) have "csv w' = Some (opened (csv w) @ rows)"
    by (auto simp: opened_def)
  ultimately show "\<exists>rows. length rows = (if sizesWBNB cfg = [] then 20 else 5 * length (sizesWBNB cfg)) \<and>
      length rows = 5 * length (sizesOf cfg) \<and> csv w' = Some (opened (csv w) @ rows)"
    using r(1) by blast
next
  fix b sz sizeIn r w1 batch1 w2 batch2
  assume "recordOutcome env cfg gasPriceWei b sz sizeIn r (w1, batch1) = Inr (w2, batch2)"
  from recordOutcome_grows [OF this]
  show "\<exists>line. csv w2 = Some (opened (csv w1) @ [line])"
    by (auto simp: opened_def)
next
  assume "(\<forall>rt. \<exists>u. estimateGasUnitsForRoute rt cfg = Fin u) \<and>
    (\<forall>sz \<in> set (sizesOf cfg). \<exists>v. parseUnits env sz (dec (WBNB ctx)) = Inr v)"
  then show "\<exists>w' batch rep. cycle env cfg ctx gasPriceWei w = Inr (w', batch, rep)"
    by (intro cycle_total) auto
next
  assume "sizesWBNB cfg \<noteq> []"
  then show "sizesOf cfg = sizesWBNB cfg" by (simp add: sizesOf_def)
next
  assume "sizesWBNB cfg = []"
  then show "sizesOf cfg = [js ''0.01'', js ''0.02'', js ''0.05'', js ''0.1'']"
    by (simp add: sizesOf_def)
qed

text \<open>
  On the chain where every call reverts, the cycle for the one configured size runs to
  its end with an empty batch and nothing to report, and the file, which did not
  exist, holds the header line and five rows; with no size configured it holds the
  header line and twenty rows.
\<close>

theorem cycle_row_count_witness:
  "(\<exists>w' rows.
     cycle (exampleEnv 0) exampleConfig exampleTokens 1 freshWorld = Inr (w', [], NoSuccessfulQuotes) \<and>
     length rows = 5 \<and> csv w' = Some (headerLine CSV_HEADERS # rows)) \<and>
   (\<exists>w' rows.
     cycle (exampleEnv 0) noSizesConfig exampleTokens 1 freshWorld = Inr (w', [], NoSuccessfulQuotes) \<and>
     length rows = 20 \<and> csv w' = Some (headerLine CSV_HEADERS # rows))"
proof
  note t = cycle_row_count [where env = "exampleEnv 0" and cfg = exampleConfig
      and ctx = exampleTokens and gasPriceWei = 1 and w = freshWorld]
  have "(\<forall>rt. \<exists>u. estimateGasUnitsForRoute rt exampleConfig = Fin u) \<and>
    (\<forall>sz \<in> set (sizesOf exampleConfig).
       \<exists>v. parseUnits (exampleEnv 0) sz (dec (WBNB exampleTokens)) = Inr v)"
    using exampleConfig_gas exampleEnv_parse by blast
  with t obtain w' batch rep where
    c: "cycle (exampleEnv 0) exampleConfig exampleTokens 1 freshWorld = Inr (w', batch, rep)"
    by blast
  with example_cycle_all_fail have b: "batch = []" "rep = NoSuccessfulQuotes" by simp_all
  from t c obtain rows where
    "length rows = 5 * length (sizesOf exampleConfig)" "csv w' = Some (opened (csv freshWorld) @ rows)"
    by blast
  then have "length rows = 5 \<and> csv w' = Some (headerLine CSV_HEADERS # rows)"
    by (simp add: exampleConfig_sizes opened_def freshWorld_def)
  with c b show "\<exists>w' rows.
     cycle (exampleEnv 0) exampleConfig exampleTokens 1 freshWorld = Inr (w', [], NoSuccessfulQuotes) \<and>
     length rows = 5 \<and> csv w' = Some (headerLine CSV_HEADERS # rows)"
    by blast
next
  note t = cycle_row_count [where env = "exampleEnv 0" and cfg = noSizesConfig
      and ctx = exampleTokens and gasPriceWei = 1 and w = freshWorld]
  from example_cycle_no_sizes obtain w' where
    c: "cycle (exampleEnv 0) noSizesConfig exampleTokens 1 freshWorld = Inr (w', [], NoSuccessfulQuotes)"
    by blast
  with t obtain rows where
    "length rows = (if sizesWBNB noSizesConfig = [] then 20 else 5 * length (sizesWBNB noSizesConfig))"
    "csv w' = Some (opened (csv freshWorld) @ rows)"
    by blast
  then have "length rows = 20 \<and> csv w' = Some (headerLine CSV_HEADERS # rows)"
    by (simp add: noSizesConfig_sizes opened_def freshWorld_def)
  with c show "\<exists>w' rows.
     cycle (exampleEnv 0) noSizesConfig exampleTokens 1 freshWorld = Inr (w', [], NoSuccessfulQuotes) \<and>
     length rows = 20 \<and> csv w' = Some (headerLine CSV_HEADERS # rows)"
    by blast
qed

text \<open>
  The claim as stated fails when no trade size is configured: the number of configured
  sizes times five is 0, and the cycle probes the four default sizes and writes twenty
  rows.
\<close>

theorem cycle_row_count_counterexample:
  "sizesWBNB noSizesConfig = [] \<and>
   5 * length (sizesWBNB noSizesConfig) = 0 \<and>
   cycle (exampleEnv 0) noSizesConfig exampleTokens 1 freshWorld =
     Inr (\<lparr>calls = failedCalls 10000000000000000 @ failedCalls 20000000000000000 @
                   failedCalls 50000000000000000 @ failedCalls 100000000000000000,
           csv = Some (headerLine CSV_HEADERS # map (csvLine CSV_HEADERS)
                   (failureRows (js ''0.01'') @ failureRows (js ''0.02'') @
                    failureRows (js ''0.05'') @ failureRows (js ''0.1'')))\<rparr>,
          [], NoSuccessfulQuotes) \<and>
   length (map (csvLine CSV_HEADERS)
             (failureRows (js ''0.01'') @ failureRows (js ''0.02'') @
              failureRows (js ''0.05'') @ failureRows (js ''0.1''))) = 20"
  using example_cycle_no_sizes by (simp add: noSizesConfig_sizes failureRows_def)

section \<open>Which arithmetic is exact\<close>

lemma example_score_inexact:
  "score exampleConfig 1 (js ''0.00000000000001'') 10000 V2toV3 (js ''V2->V3:WBNB->USDT->WBNB'')
     10000 9007199254750993 =
   Inr \<lparr>routeType = V2toV3, sizeLabel = js ''0.00000000000001'', legs = js ''V2->V3:WBNB->USDT->WBNB'',
        inAmount = 10000, outAmount = 9007199254750993, pnl = 9007199254740993,
        bps = Fin 9007199254740992, gasWBNB = 5, flashFee = 10, netPnl = 9007199254740978,
        noteText = []\<rparr>"
proof -
  have "flashloanFeeInWBNB 10000 exampleConfig = 10"
    by (simp add: flashloanFeeInWBNB_def exampleConfig_def bigint_div_def)
  moreover have "safePctBps 9007199254740993 10000 = Fin 9007199254740992"
    by (simp add: safePctBps_def bigint_div_def toNumber_first_inexact)
  ultimately show ?thesis
    by (simp add: score_def example_gas_units gasCostInWBNB_def toBigInt_def Let_def)
qed

text \<open>
  C8, as amended: raw profit, flash fee and net profit are exact integer arithmetic, and
  the gas cost is the exact product of the gas price and the gas units. The gas units
  are computed on Numbers and are the exact sum for the route type when the three
  configured estimates have magnitude at most \<open>2 ^ 50\<close>. The basis-points value is a
  Number: the truncated quotient converted to a double, which is the quotient itself
  when its magnitude is at most \<open>2 ^ 53\<close>.
\<close>

theorem score_arithmetic:
  assumes "score cfg gasPriceWei sz sizeIn rt lg i out = Inr s"
  shows "pnl s = out - i \<and>
         flashFee s = bigint_div (sizeIn * flashloanFeeBps cfg) 10000 \<and>
         netPnl s = out - i - gasWBNB s - flashFee s \<and>
         (\<exists>u. estimateGasUnitsForRoute rt cfg = Fin u \<and> gasWBNB s = gasPriceWei * u) \<and>
         (\<bar>v2Swap (gasEstimates cfg)\<bar> \<le> 2 ^ 50 \<and> \<bar>v3Swap (gasEstimates cfg)\<bar> \<le> 2 ^ 50 \<and>
          \<bar>wombatSwap (gasEstimates cfg)\<bar> \<le> 2 ^ 50 \<longrightarrow>
            gasWBNB s = gasPriceWei *
              (if rt = V2toV3 \<or> rt = V3toV2 then v2Swap (gasEstimates cfg) + v3Swap (gasEstimates cfg)
               else if rt = js ''TRI'' then v2Swap (gasEstimates cfg) * 3
               else if rt = js ''TRI_WOMBAT_A'' \<or> rt = js ''TRI_WOMBAT_B''
               then v2Swap (gasEstimates cfg) * 2 + wombatSwap (gasEstimates cfg)
               else v2Swap (gasEstimates cfg) * 2)) \<and>
         (i = 0 \<longrightarrow> bps s = Fin 0) \<and>
         (i \<noteq> 0 \<longrightarrow> bps s = toNumber (bigint_div ((out - i) * 10000) i)) \<and>
         (i \<noteq> 0 \<and> \<bar>bigint_div ((out - i) * 10000) i\<bar> \<le> 2 ^ 53 \<longrightarrow>
            bps s = Fin (bigint_div ((out - i) * 10000) i))"
proof -
  note f = score_fields [OF assms]
  from f(6) obtain u where u: "estimateGasUnitsForRoute rt cfg = Fin u" "gasWBNB s = gasPriceWei * u"
    by (auto simp: gasCostInWBNB_def toBigInt_def split: jsnumber.splits)
  have exact: "gasWBNB s = gasPriceWei *
      (if rt = V2toV3 \<or> rt = V3toV2 then v2Swap (gasEstimates cfg) + v3Swap (gasEstimates cfg)
       else if rt = js ''TRI'' then v2Swap (gasEstimates cfg) * 3
       else if rt = js ''TRI_WOMBAT_A'' \<or> rt = js ''TRI_WOMBAT_B''
       then v2Swap (gasEstimates cfg) * 2 + wombatSwap (gasEstimates cfg)
       else v2Swap (gasEstimates cfg) * 2)"
    if b: "\<bar>v2Swap (gasEstimates cfg)\<bar> \<le> 2 ^ 50" "\<bar>v3Swap (gasEstimates cfg)\<bar> \<le> 2 ^ 50"
      "\<bar>wombatSwap (gasEstimates cfg)\<bar> \<le> 2 ^ 50"
  proof -
    have "toNumber (v2Swap (gasEstimates cfg) + v3Swap (gasEstimates cfg)) =
        Fin (v2Swap (gasEstimates cfg) + v3Swap (gasEstimates cfg))"
      using b by (intro toNumber_exact) simp
    moreover have "toNumber (v2Swap (gasEstimates cfg) * 3) = Fin (v2Swap (gasEstimates cfg) * 3)"
      using b by (intro toNumber_exact) simp
    moreover have "toNumber (v2Swap (gasEstimates cfg) * 2) = Fin (v2Swap (gasEstimates cfg) * 2)"
      using b by (intro toNumber_exact) simp
    moreover have "toNumber (v2Swap (gasEstimates cfg) * 2 + wombatSwap (gasEstimates cfg)) =
        Fin (v2Swap (gasEstimates cfg) * 2 + wombatSwap (gasEstimates cfg))"
      using b by (intro toNumber_exact) simp
    ultimately show ?thesis
      using u by (auto simp: estimateGasUnitsForRoute_def num_mul_def Let_def split: if_splits)
  qed
  have "bps s = Fin (bigint_div ((out - i) * 10000) i)"
    if "i \<noteq> 0" "\<bar>bigint_div ((out - i) * 10000) i\<bar> \<le> 2 ^ 53"
    using that f(7) by (simp add: safePctBps_def toNumber_exact)
  with u exact f(3,4,5,7) show ?thesis
    by (auto simp: flashloanFeeInWBNB_def safePctBps_def)
qed

theorem score_arithmetic_witness:
  "pnl entryWombatA = 1099 - 1000 \<and>
   flashFee entryWombatA = 1 \<and>
   netPnl entryWombatA = 1099 - 1000 - 8 - 1 \<and>
   gasWBNB entryWombatA = 1 * (2 * 2 + 4) \<and>
   bps entryWombatA = Fin 990"
proof -
  have a: "bigint_div (1000 * flashloanFeeBps exampleConfig) 10000 = 1"
    "bigint_div ((1099 - 1000) * 10000) 1000 = 990"
    by (simp_all add: bigint_div_def exampleConfig_def)
  have b: "\<bar>v2Swap (gasEstimates exampleConfig)\<bar> \<le> 2 ^ 50 \<and> \<bar>v3Swap (gasEstimates exampleConfig)\<bar> \<le> 2 ^ 50 \<and>
      \<bar>wombatSwap (gasEstimates exampleConfig)\<bar> \<le> 2 ^ 50"
    by (simp add: exampleConfig_def)
  have c: "(1000::int) \<noteq> 0 \<and> \<bar>bigint_div ((1099 - 1000) * 10000) 1000\<bar> \<le> 2 ^ 53"
    unfolding a by simp
  have d: "js ''TRI_WOMBAT_A'' \<noteq> V2toV3" "js ''TRI_WOMBAT_A'' \<noteq> V3toV2" "js ''TRI_WOMBAT_A'' \<noteq> js ''TRI''"
    using route_types_differ by (simp_all add: js_eq_iff)
  note t = score_arithmetic [OF example_scores(4)]
  from t have "pnl entryWombatA = 1099 - 1000" by blast
  moreover from t a(1) have "flashFee entryWombatA = 1" by simp
  moreover from t b d have g: "gasWBNB entryWombatA = 1 * (2 * 2 + 4)"
    by (simp add: exampleConfig_def)
  moreover from t c have "bps entryWombatA = Fin (bigint_div ((1099 - 1000) * 10000) 1000)" by blast
  then have "bps entryWombatA = Fin 990" unfolding a .
  moreover from t have "netPnl entryWombatA = 1099 - 1000 - gasWBNB entryWombatA - flashFee entryWombatA"
    by blast
  ultimately show ?thesis by simp
qed

text \<open>
  The claim as stated fails for the basis points: for an input of 10000 and an output
  of 9007199254750993 the exact quotient is 9007199254740993, and the entry holds the
  double next to it.
\<close>

theorem score_arithmetic_counterexample:
  "score exampleConfig 1 (js ''0.00000000000001'') 10000 V2toV3 (js ''V2->V3:WBNB->USDT->WBNB'')
     10000 9007199254750993 =
   Inr \<lparr>routeType = V2toV3, sizeLabel = js ''0.00000000000001'', legs = js ''V2->V3:WBNB->USDT->WBNB'',
        inAmount = 10000, outAmount = 9007199254750993, pnl = 9007199254740993,
        bps = Fin 9007199254740992, gasWBNB = 5, flashFee = 10, netPnl = 9007199254740978,
        noteText = []\<rparr> \<and>
   bigint_div ((9007199254750993 - 10000) * 10000) 10000 = 9007199254740993"
  using example_score_inexact by (simp add: bigint_div_def)

end
